theory Spec2Isabelle
  imports Complex_Main "HOL-Library.Sublist" "HOL-Library.AList"
begin

section \<open>Python strings\<close>

text \<open>
  A Python \<^verbatim>\<open>str\<close> is a sequence of Unicode code points, and \<^verbatim>\<open>len\<close> counts code
  points. Text that the code measures, trims or searches (titles, questions, keywords) is
  therefore a list of code points; \<open>str_lit\<close> embeds an ASCII literal. Identifiers that are
  only compared and used as dictionary keys (tickers, token ids, cursors) are plain
  \<open>string\<close>s.
\<close>

type_synonym pystr = "nat list"

definition str_lit :: "string \<Rightarrow> pystr" where
  "str_lit s = map of_char s"

text \<open>
  \<^verbatim>\<open>str.strip()\<close> without argument removes the characters for which
  \<^verbatim>\<open>str.isspace\<close> holds: the code points below.
\<close>

definition is_space :: "nat \<Rightarrow> bool" where
  "is_space c \<longleftrightarrow>
     (9 \<le> c \<and> c \<le> 13) \<or> (28 \<le> c \<and> c \<le> 32) \<or> c = 133 \<or> c = 160 \<or> c = 5760 \<or>
     (8192 \<le> c \<and> c \<le> 8202) \<or> c = 8232 \<or> c = 8233 \<or> c = 8239 \<or> c = 8287 \<or> c = 12288"

definition py_lstrip :: "pystr \<Rightarrow> pystr" where
  "py_lstrip s = dropWhile is_space s"

definition py_rstrip :: "pystr \<Rightarrow> pystr" where
  "py_rstrip s = rev (dropWhile is_space (rev s))"

definition py_strip :: "pystr \<Rightarrow> pystr" where
  "py_strip s = py_rstrip (py_lstrip s)"

text \<open>\<^verbatim>\<open>s.rstrip(c)\<close> and \<^verbatim>\<open>s.replace(c, "")\<close> for a one-character \<^verbatim>\<open>c\<close>.\<close>

definition rstrip_char :: "nat \<Rightarrow> pystr \<Rightarrow> pystr" where
  "rstrip_char c s = rev (dropWhile (\<lambda>x. x = c) (rev s))"

definition remove_char :: "nat \<Rightarrow> pystr \<Rightarrow> pystr" where
  "remove_char c s = filter (\<lambda>x. x \<noteq> c) s"

definition question_mark :: nat where
  "question_mark = 63"

section \<open>Canonical market model (market\_data.py)\<close>

text \<open>
  The pydantic models of \<^verbatim>\<open>src/market_data.py\<close> as records. A Python \<^verbatim>\<open>float\<close> is
  modelled as the real number it denotes; where the rounding of an operation decides
  what the code does (\<^verbatim>\<open>calculate_optimal_bet_sizing\<close>), the rounding is part of the
  model. An \<^verbatim>\<open>Optional[T]\<close> field is a \<open>T option\<close>. A
  \<^verbatim>\<open>datetime\<close> is the number of microseconds since a fixed epoch (all datetimes of one
  run are taken to be timezone-aware, as the two clients produce them from a trailing
  \<^verbatim>\<open>Z\<close>). The field \<^verbatim>\<open>raw_data\<close> (the verbatim payload) plays no role in any
  computation and is left out.
\<close>

datatype Platform = KALSHI | POLYMARKET

datatype MarketStatus = ACTIVE | CLOSED | SETTLED | PAUSED

datatype MarketType = BINARY | CATEGORICAL | SCALAR

record MarketOutcome =
  outcome_id :: string
  outcome_name :: string
  yes_price :: "real option"
  no_price :: "real option"
  volume :: "real option"
  last_trade_price :: "real option"
  bid :: "real option"
  ask :: "real option"
  is_winner :: "bool option"

record StandardizedMarket =
  market_id :: string
  platform :: Platform
  title :: pystr
  description :: pystr
  market_type :: MarketType
  status :: MarketStatus
  category :: "string option"
  subcategory :: "string option"
  created_at :: "int option"
  close_date :: "int option"
  resolution_date :: "int option"
  outcomes :: "MarketOutcome list"
  total_volume :: "real option"
  total_liquidity :: "real option"
  tags :: "string list"
  source_url :: "string option"
  primary_question :: pystr
  market_confidence_score :: "real option"

record ArbitrageOpportunity =
  opportunity_id :: string
  market_1 :: StandardizedMarket
  market_2 :: StandardizedMarket
  profit_percentage :: real
  required_investment :: real
  potential_profit :: real
  risk_score :: real
  confidence_score :: real
  similarity_score :: real
  price_difference :: real
  llm_analysis :: "string option"
  matching_rationale :: "string option"

section \<open>Exceptions and division\<close>

text \<open>
  A function that can raise returns a sum: \<open>Inl\<close> carries the exception, and every
  \<^verbatim>\<open>try/except\<close> of the source is a case distinction on it. The exceptions are told
  apart by what the code raises them for: \<open>RateLimitExceeded\<close> is the exception with the
  message \<^verbatim>\<open>Rate limit exceeded\<close>, \<open>HTTPError s\<close> the one raised for a status
  \<open>s \<ge> 400\<close>, \<open>ClientError\<close> a transport failure or timeout of the HTTP library,
  \<open>JSONDecodeError\<close> a body that is not JSON, \<open>SigningError\<close> a failure to sign, \<open>ValueError\<close> a failed \<^verbatim>\<open>int(...)\<close>,
  and \<open>APIError e\<close> the client's own \<^verbatim>\<open>APIError\<close> raised for the cause \<open>e\<close>.

  Python raises \<^verbatim>\<open>ZeroDivisionError\<close> on a float division by zero (also on
  \<^verbatim>\<open>0.0 / 0.0\<close>); HOL's \<open>x / 0\<close> is \<open>0\<close>. Every division of the code
  therefore goes through \<open>py_div\<close> or, with rounding, \<open>fl_div\<close>.
\<close>

datatype py_error =
    ZeroDivisionError
  | ValueError
  | RuntimeError
  | ClientError
  | JSONDecodeError
  | SigningError
  | RateLimitExceeded
  | HTTPError nat
  | APIError py_error

definition py_div :: "real \<Rightarrow> real \<Rightarrow> py_error + real" where
  "py_div a b = (if b = 0 then Inl ZeroDivisionError else Inr (a / b))"

section \<open>Arbitrage detector (detector.py)\<close>

subsection \<open>\<^verbatim>\<open>_normalize_price\<close>\<close>

definition normalize_price :: "real \<Rightarrow> real" where
  "normalize_price price =
     (if price \<le> 1 then price
      else if price \<le> 100 then price / 100
      else min (price / 100) 1)"

subsection \<open>\<^verbatim>\<open>_calculate_arbitrage\<close>\<close>

text \<open>
  The dictionary the function returns. \<^verbatim>\<open>default_investment\<close> is the attribute set in
  \<^verbatim>\<open>__init__\<close> (1000.0); it is a parameter here, as the attribute is assignable. The
  only operations that can raise are the divisions: by \<^verbatim>\<open>investment_per_share\<close> (a buy
  price of zero) and by \<^verbatim>\<open>default_investment\<close>. Either is caught by the function's
  \<^verbatim>\<open>except Exception\<close>, which returns \<^verbatim>\<open>None\<close>.
\<close>

datatype market_label = Market1 | Market2

record arbitrage_calc =
  calc_profit_percentage :: real
  calc_required_investment :: real
  calc_potential_profit :: real
  calc_buy_price :: real
  calc_sell_price :: real
  calc_buy_platform :: market_label
  calc_sell_platform :: market_label
  calc_shares :: real
  calc_gross_profit :: real
  calc_transaction_cost :: real

definition calculate_arbitrage_body ::
  "real \<Rightarrow> real \<Rightarrow> real \<Rightarrow> py_error + arbitrage_calc option" where
  "calculate_arbitrage_body default_investment price1_raw price2_raw =
     (let price1 = normalize_price price1_raw;
          price2 = normalize_price price2_raw;
          (buy_price, sell_price, buy_platform, sell_platform) =
             (if price1 < price2 then (price1, price2, Market1, Market2)
              else (price2, price1, Market2, Market1));
          price_diff = sell_price - buy_price
      in if price_diff \<le> 0 then Inr None
         else
           (case py_div default_investment buy_price of
              Inl e \<Rightarrow> Inl e
            | Inr shares_to_buy \<Rightarrow>
               (let total_profit = shares_to_buy * price_diff in
                (case py_div total_profit default_investment of
                   Inl e \<Rightarrow> Inl e
                 | Inr _ \<Rightarrow>
                    (let transaction_cost = default_investment * (1 / 100);
                         net_profit = total_profit - transaction_cost in
                     (case py_div net_profit default_investment of
                        Inl e \<Rightarrow> Inl e
                      | Inr q \<Rightarrow>
                         Inr (Some \<lparr>
                           calc_profit_percentage = q * 100,
                           calc_required_investment = default_investment,
                           calc_potential_profit = net_profit,
                           calc_buy_price = buy_price,
                           calc_sell_price = sell_price,
                           calc_buy_platform = buy_platform,
                           calc_sell_platform = sell_platform,
                           calc_shares = shares_to_buy,
                           calc_gross_profit = total_profit,
                           calc_transaction_cost = transaction_cost \<rparr>)))))))"

definition calculate_arbitrage :: "real \<Rightarrow> real \<Rightarrow> real \<Rightarrow> arbitrage_calc option" where
  "calculate_arbitrage default_investment price1 price2 =
     (case calculate_arbitrage_body default_investment price1 price2 of
        Inl _ \<Rightarrow> None
      | Inr r \<Rightarrow> r)"

subsection \<open>\<^verbatim>\<open>_calculate_risk_score\<close>\<close>

text \<open>
  The \<^verbatim>\<open>match\<close> dictionary, restricted to the two keys the risk score reads with
  \<^verbatim>\<open>match.get\<close>; \<open>None\<close> is an absent key, for which \<^verbatim>\<open>get\<close> supplies the default.
  \<^verbatim>\<open>(d1 - d2).days\<close> is the day count of a normalised \<^verbatim>\<open>timedelta\<close>: the floor of
  the difference in days.
\<close>

record match_input =
  match_similarity_score :: "real option"
  match_price_difference :: "real option"

definition timedelta_days :: "int \<Rightarrow> int \<Rightarrow> int" where
  "timedelta_days d1 d2 = (d1 - d2) div 86400000000"

definition or_zero :: "real option \<Rightarrow> real" where
  "or_zero v = (case v of None \<Rightarrow> 0 | Some x \<Rightarrow> x)"

definition risk_factors :: "match_input \<Rightarrow> StandardizedMarket \<Rightarrow> StandardizedMarket \<Rightarrow> real list" where
  "risk_factors m market1 market2 =
     (let time_risk =
            (case (close_date market1, close_date market2) of
               (Some d1, Some d2) \<Rightarrow> (if \<bar>timedelta_days d1 d2\<bar> > 7 then [3 / 10] else [])
             | _ \<Rightarrow> []);
          total_volume_1 = or_zero (total_volume market1);
          total_volume_2 = or_zero (total_volume market2);
          liquidity_risk =
            (if total_volume_1 < 1000 \<or> total_volume_2 < 1000 then [2 / 10] else []);
          platform_risk = 1 / 10;
          similarity = (case match_similarity_score m of None \<Rightarrow> 5 / 10 | Some s \<Rightarrow> s);
          similarity_risk = 1 - similarity;
          price_diff = (case match_price_difference m of None \<Rightarrow> 0 | Some d \<Rightarrow> d);
          volatility_risk = (if price_diff > 3 / 10 then [3 / 10] else [])
      in time_risk @ liquidity_risk @ [platform_risk] @ [similarity_risk * (4 / 10)]
           @ volatility_risk)"

definition calculate_risk_score :: "match_input \<Rightarrow> StandardizedMarket \<Rightarrow> StandardizedMarket \<Rightarrow> real" where
  "calculate_risk_score m market1 market2 = min (sum_list (risk_factors m market1 market2)) 1"

subsection \<open>\<^verbatim>\<open>calculate_optimal_bet_sizing\<close>\<close>

record bet_sizing =
  optimal_investment :: real
  kelly_fraction :: real
  position_percentage :: real
  expected_profit :: real
  max_loss :: real

text \<open>
  Here rounding decides which branch runs (a profit percentage other than zero can give
  a ratio of zero), so the float arithmetic of this function is modelled with its
  rounding: a finite float is the real number it denotes, and an operation returns the
  exact result rounded by \<open>rnd\<close>, the rounding of the float format
  (\<open>rnd = (\<lambda>x. x)\<close> is exact arithmetic). An exact result of zero is a float and is
  returned as it is. Infinities and NaN are outside the model. The literals \<^verbatim>\<open>1.0\<close>,
  \<^verbatim>\<open>100.0\<close>, \<^verbatim>\<open>0.5\<close> and \<^verbatim>\<open>100\<close> are floats exactly; \<^verbatim>\<open>min\<close> and the test for a zero
  divisor do not round.
\<close>

definition fl :: "(real \<Rightarrow> real) \<Rightarrow> real \<Rightarrow> real" where
  "fl rnd x = (if x = 0 then 0 else rnd x)"

definition fl_div :: "(real \<Rightarrow> real) \<Rightarrow> real \<Rightarrow> real \<Rightarrow> py_error + real" where
  "fl_div rnd a b = (if b = 0 then Inl ZeroDivisionError else Inr (fl rnd (a / b)))"

definition bet_sizing_body ::
  "(real \<Rightarrow> real) \<Rightarrow> ArbitrageOpportunity \<Rightarrow> real \<Rightarrow> real \<Rightarrow> py_error + bet_sizing" where
  "bet_sizing_body rnd opportunity available_capital max_position_size =
     (let win_probability = fl rnd (1 - risk_score opportunity);
          profit_ratio = fl rnd (profit_percentage opportunity / 100)
      in case fl_div rnd (fl rnd (win_probability * profit_ratio)) profit_ratio of
           Inl e \<Rightarrow> Inl e
         | Inr kelly0 \<Rightarrow>
            (let conservative_factor = 5 / 10;
                 kelly = fl rnd (kelly0 * conservative_factor);
                 max_position = fl rnd (available_capital * max_position_size);
                 investment =
                   min (fl rnd (kelly * available_capital))
                       (min max_position (required_investment opportunity))
             in case fl_div rnd investment available_capital of
                  Inl e \<Rightarrow> Inl e
                | Inr share \<Rightarrow>
                   Inr \<lparr> optimal_investment = investment,
                         kelly_fraction = kelly,
                         position_percentage = fl rnd (share * 100),
                         expected_profit =
                           fl rnd (investment * fl rnd (profit_ratio * win_probability)),
                         max_loss = fl rnd (investment * risk_score opportunity) \<rparr>))"

definition fallback_sizing :: "ArbitrageOpportunity \<Rightarrow> bet_sizing" where
  "fallback_sizing opportunity =
     \<lparr> optimal_investment = required_investment opportunity,
       kelly_fraction = 0,
       position_percentage = 0,
       expected_profit = 0,
       max_loss = 0 \<rparr>"

definition calculate_optimal_bet_sizing ::
  "(real \<Rightarrow> real) \<Rightarrow> ArbitrageOpportunity \<Rightarrow> real \<Rightarrow> real \<Rightarrow> bet_sizing" where
  "calculate_optimal_bet_sizing rnd opportunity available_capital max_position_size =
     (case bet_sizing_body rnd opportunity available_capital max_position_size of
        Inr r \<Rightarrow> r
      | Inl _ \<Rightarrow> fallback_sizing opportunity)"

subsection \<open>\<^verbatim>\<open>_get_best_price\<close> and \<^verbatim>\<open>_calculate_arbitrage_opportunity\<close>\<close>

text \<open>
  The two \<^verbatim>\<open>for\<close> loops of \<^verbatim>\<open>_get_best_price\<close>, each returning from inside the loop,
  are two recursive scans of the outcome list.
\<close>

fun yes_or_last_scan :: "MarketOutcome list \<Rightarrow> real option" where
  "yes_or_last_scan [] = None"
| "yes_or_last_scan (outcome # rest) =
     (if yes_price outcome \<noteq> None then yes_price outcome
      else if last_trade_price outcome \<noteq> None then last_trade_price outcome
      else yes_or_last_scan rest)"

fun no_price_scan :: "MarketOutcome list \<Rightarrow> real option" where
  "no_price_scan [] = None"
| "no_price_scan (outcome # rest) =
     (case no_price outcome of
        Some p \<Rightarrow> Some (1 - p)
      | None \<Rightarrow> no_price_scan rest)"

definition get_best_price :: "StandardizedMarket \<Rightarrow> real option" where
  "get_best_price market =
     (if outcomes market = [] then None
      else case yes_or_last_scan (outcomes market) of
             Some p \<Rightarrow> Some p
           | None \<Rightarrow> no_price_scan (outcomes market))"

text \<open>
  The best price as the specification words it, for comparison: the first present
  \<open>yes_price\<close> of the market, else the first present \<open>last_trade_price\<close>, else one minus
  the first present \<open>no_price\<close>.
\<close>

definition first_present :: "(MarketOutcome \<Rightarrow> real option) \<Rightarrow> MarketOutcome list \<Rightarrow> real option" where
  "first_present field os = (case List.map_filter field os of [] \<Rightarrow> None | x # _ \<Rightarrow> Some x)"

definition spec_best_price :: "StandardizedMarket \<Rightarrow> real option" where
  "spec_best_price market =
     (case first_present yes_price (outcomes market) of
        Some y \<Rightarrow> Some y
      | None \<Rightarrow>
          (case first_present last_trade_price (outcomes market) of
             Some l \<Rightarrow> Some l
           | None \<Rightarrow> map_option (\<lambda>p. 1 - p) (first_present no_price (outcomes market))))"

record pair_opportunity =
  pair_kalshi_market :: StandardizedMarket
  pair_polymarket_market :: StandardizedMarket
  pair_kalshi_price :: real
  pair_polymarket_price :: real
  pair_spread :: real
  pair_profit_percentage :: real
  pair_profit_per_dollar :: real
  pair_buy_market :: Platform
  pair_sell_market :: Platform
  pair_buy_price :: real
  pair_sell_price :: real
  pair_kalshi_url :: "string option"
  pair_polymarket_url :: "string option"

text \<open>
  The timestamp \<^verbatim>\<open>detected_at\<close> of the returned dictionary is the wall clock and is
  left out. Nothing in the body can raise on well-typed markets, so the
  \<^verbatim>\<open>except\<close> branch has no counterpart.
\<close>

definition calculate_arbitrage_opportunity ::
  "StandardizedMarket \<Rightarrow> StandardizedMarket \<Rightarrow> pair_opportunity option" where
  "calculate_arbitrage_opportunity kalshi_market polymarket_market =
     (case (get_best_price kalshi_market, get_best_price polymarket_market) of
        (Some kalshi_price, Some polymarket_price) \<Rightarrow>
          (let spread = \<bar>kalshi_price - polymarket_price\<bar>;
               min_spread = 3 / 100
           in if spread < min_spread then None
              else
                (let (buy_market, sell_market, buy_price, sell_price) =
                       (if kalshi_price < polymarket_price
                        then (KALSHI, POLYMARKET, kalshi_price, polymarket_price)
                        else (POLYMARKET, KALSHI, polymarket_price, kalshi_price));
                     profit_per_dollar = sell_price - buy_price
                 in Some \<lparr>
                      pair_kalshi_market = kalshi_market,
                      pair_polymarket_market = polymarket_market,
                      pair_kalshi_price = kalshi_price,
                      pair_polymarket_price = polymarket_price,
                      pair_spread = spread,
                      pair_profit_percentage = profit_per_dollar * 100,
                      pair_profit_per_dollar = profit_per_dollar,
                      pair_buy_market = buy_market,
                      pair_sell_market = sell_market,
                      pair_buy_price = buy_price,
                      pair_sell_price = sell_price,
                      pair_kalshi_url = source_url kalshi_market,
                      pair_polymarket_url = source_url polymarket_market \<rparr>))
      | _ \<Rightarrow> None)"

section \<open>Primary-question extraction (kalshi\_client.py, polymarket\_client.py)\<close>

definition prefixes_to_remove :: "pystr list" where
  "prefixes_to_remove =
     map str_lit [''Will '', ''Does '', ''Did '', ''Is '', ''Are '', ''Has '', ''Have '']"

text \<open>
  The loop over the prefixes: the first prefix the question starts with is cut off, and
  the \<^verbatim>\<open>break\<close> ends the loop.
\<close>

fun remove_first_prefix :: "pystr list \<Rightarrow> pystr \<Rightarrow> pystr" where
  "remove_first_prefix [] question = question"
| "remove_first_prefix (p # ps) question =
     (if prefix p question then drop (length p) question
      else remove_first_prefix ps question)"

definition ensure_length :: "pystr \<Rightarrow> pystr" where
  "ensure_length question =
     (if length question > 200 then take 200 question @ str_lit ''...'' else question)"

text \<open>Neither function reads its second argument \<^verbatim>\<open>description\<close>.\<close>

definition kalshi_extract_primary_question :: "pystr \<Rightarrow> pystr \<Rightarrow> pystr" where
  "kalshi_extract_primary_question title_text description_text =
     ensure_length
       (py_strip (rstrip_char question_mark (remove_first_prefix prefixes_to_remove title_text)))"

definition polymarket_extract_primary_question :: "pystr \<Rightarrow> pystr \<Rightarrow> pystr" where
  "polymarket_extract_primary_question title_text description_text =
     ensure_length
       (remove_first_prefix prefixes_to_remove (py_strip (remove_char question_mark title_text)))"

text \<open>
  The extraction as the specification words it, for comparison: at most one leading
  prefix and the trailing question mark are removed, nothing else, and a long result is
  cut to 200 characters and the marker.
\<close>

definition spec_strip_trailing_question_mark :: "pystr \<Rightarrow> pystr" where
  "spec_strip_trailing_question_mark s =
     (if s \<noteq> [] \<and> last s = question_mark then butlast s else s)"

definition spec_extract_primary_question :: "pystr \<Rightarrow> pystr" where
  "spec_extract_primary_question title_text =
     ensure_length
       (spec_strip_trailing_question_mark (remove_first_prefix prefixes_to_remove title_text))"

section \<open>Request layer\<close>





subsection \<open>Polymarket: \<^verbatim>\<open>_make_request\<close> and \<^verbatim>\<open>_make_post_request\<close>\<close>









subsection \<open>Kalshi and the base client: \<^verbatim>\<open>_make_request\<close>\<close>

text \<open>
  The rate limiter reads the clock and \<^verbatim>\<open>settings.MAX_CONCURRENT_REQUESTS\<close> (a module
  that is not among the sources): the time since the last request and the setting are
  parameters. Signing is the environment's too: there are no credentials (the request
  goes out unsigned), or signing succeeds, or it raises. The decorators of the base
  client's function come from the library \<^verbatim>\<open>ratelimit\<close> and space out calls; they
  are not part of the model.
\<close>

datatype signing = NoCredentials | Signed | SigningFails




section \<open>Polymarket client (polymarket\_client.py)\<close>

subsection \<open>\<^verbatim>\<open>get_market_prices\<close>\<close>

text \<open>
  Token ids are strings (\<^verbatim>\<open>List[str]\<close>), so \<^verbatim>\<open>str(token_id)\<close> is the id itself. The
  payload is the list of \<^verbatim>\<open>{"token_id", "side"}\<close> entries. \<^verbatim>\<open>_make_post_request\<close> is
  the environment \<open>post\<close>: it raises, or returns the parsed JSON, which is a dictionary
  from token ids to prices or some other value, of which only the truthiness matters.
  Dictionaries keep insertion order: association lists, written with \<open>AList.update\<close> and
  read with \<open>map_of\<close>. The function returns the merged prices; the model returns with
  them the payloads posted, in order. The pause between chunks has no effect on either
  and is left out.
\<close>

datatype side = BUY | SELL

type_synonym book_params = "string \<times> side"

datatype 'p prices_json = PricesDict "(string \<times> 'p) list" | OtherJSON bool

definition prices_truthy :: "'p prices_json \<Rightarrow> bool" where
  "prices_truthy r = (case r of PricesDict d \<Rightarrow> d \<noteq> [] | OtherJSON b \<Rightarrow> b)"

definition chunk_size :: nat where
  "chunk_size = 10"

text \<open>\<^verbatim>\<open>range(0, n, step)\<close> for a positive step.\<close>

definition py_range :: "nat \<Rightarrow> nat \<Rightarrow> nat list" where
  "py_range n step = map (\<lambda>k. k * step) [0 ..< (n + step - 1) div step]"

text \<open>
  The first \<^verbatim>\<open>for\<close> loop. Its body is the two lines indented under it: the slice and a
  log call. What it leaves behind are the variables \<^verbatim>\<open>i\<close> and \<^verbatim>\<open>chunk\<close> of its last
  round (unbound if it never ran).
\<close>

fun chunk_loop :: "string list \<Rightarrow> nat list \<Rightarrow> (nat \<times> string list) option \<Rightarrow> (nat \<times> string list) option" where
  "chunk_loop token_ids [] vars = vars"
| "chunk_loop token_ids (i # rest) vars =
     chunk_loop token_ids rest (Some (i, take chunk_size (drop i token_ids)))"

text \<open>
  \<^verbatim>\<open>for token_id in chunk: if ... in prices_response: all_prices[...] = ...\<close>
\<close>

fun merge_prices :: "string list \<Rightarrow> (string \<times> 'p) list \<Rightarrow> (string \<times> 'p) list \<Rightarrow> (string \<times> 'p) list" where
  "merge_prices [] response all_prices = all_prices"
| "merge_prices (t # ts) response all_prices =
     merge_prices ts response
       (case map_of response t of
          Some v \<Rightarrow> AList.update t v all_prices
        | None \<Rightarrow> all_prices)"

text \<open>
  The second loop, \<^verbatim>\<open>for token_id in chunk\<close>, stands at the indentation of the first
  one, after it. Its body is everything down to the pause: two entries are appended to
  \<^verbatim>\<open>payload\<close> (which was emptied once, before the loop), and the payload so far is
  posted. A falsy response and an exception both \<^verbatim>\<open>continue\<close>.
\<close>

fun price_request_loop ::
  "(book_params list \<Rightarrow> py_error + 'p prices_json) \<Rightarrow> string list \<Rightarrow> string list \<Rightarrow>
   book_params list \<Rightarrow> (string \<times> 'p) list \<Rightarrow> book_params list list \<Rightarrow>
   (string \<times> 'p) list \<times> book_params list list" where
  "price_request_loop post chunk [] payload all_prices posted = (all_prices, posted)"
| "price_request_loop post chunk (t # ts) payload all_prices posted =
     (let payload' = payload @ [(t, BUY), (t, SELL)] in
      (case post payload' of
         Inl chunk_error \<Rightarrow>
           price_request_loop post chunk ts payload' all_prices (posted @ [payload'])
       | Inr prices_response \<Rightarrow>
           (if \<not> prices_truthy prices_response then
              price_request_loop post chunk ts payload' all_prices (posted @ [payload'])
            else
              (let all_prices' =
                     (case prices_response of
                        PricesDict d \<Rightarrow> merge_prices chunk d all_prices
                      | OtherJSON _ \<Rightarrow> all_prices)
               in price_request_loop post chunk ts payload' all_prices' (posted @ [payload'])))))"

definition get_market_prices ::
  "(book_params list \<Rightarrow> py_error + 'p prices_json) \<Rightarrow> string list \<Rightarrow>
   (string \<times> 'p) list option \<times> book_params list list" where
  "get_market_prices post token_ids =
     (if token_ids = [] then (Some [], [])
      else
        (case chunk_loop token_ids (py_range (length token_ids) chunk_size) None of
           None \<Rightarrow> (None, [])
         | Some (i, chunk) \<Rightarrow>
             (let (all_prices, posted) = price_request_loop post chunk chunk [] [] []
              in (if all_prices \<noteq> [] then Some all_prices else None, posted))))"

text \<open>
  The batch request as the docstring, the comments and the specification describe it,
  for comparison: the ids are cut into chunks of \<open>chunk_size\<close>, and each chunk is posted
  once, as the BUY and SELL entries of its ids.
\<close>

fun spec_chunks :: "nat \<Rightarrow> string list \<Rightarrow> string list list" where
  "spec_chunks 0 token_ids = []"
| "spec_chunks (Suc fuel) token_ids =
     (if token_ids = [] then []
      else take chunk_size token_ids # spec_chunks fuel (drop chunk_size token_ids))"

definition spec_payloads :: "string list \<Rightarrow> book_params list list" where
  "spec_payloads token_ids =
     map (\<lambda>chunk. concat (map (\<lambda>t. [(t, BUY), (t, SELL)]) chunk))
       (spec_chunks (length token_ids) token_ids)"

subsection \<open>Raw markets and \<^verbatim>\<open>_convert_markets_with_batch_pricing\<close>\<close>

text \<open>
  A raw market is the JSON object of the CLOB API. The listing code reads the fields
  below with \<^verbatim>\<open>get\<close>; an absent key is \<open>None\<close>. Of the entries of \<^verbatim>\<open>tokens\<close> it reads
  the \<^verbatim>\<open>token_id\<close> only. Everything else the object holds is \<open>other_fields\<close>.
  \<^verbatim>\<open>_convert_to_standardized_market_with_prices\<close> wraps its body in \<^verbatim>\<open>try/except\<close> and
  returns \<^verbatim>\<open>None\<close> on any failure: it is a function \<open>convert\<close> from the raw market and
  its prices to an optional market, and the listing functions are verified for every
  such function.
\<close>

record 'x polymarket_raw =
  condition_id :: "string option"
  question :: "pystr option"
  active :: "bool option"
  closed :: "bool option"
  token_ids_of :: "string option list"
  other_fields :: 'x

definition truthy_ids :: "string option list \<Rightarrow> string list" where
  "truthy_ids ts = concat (map (\<lambda>t. case t of None \<Rightarrow> [] | Some i \<Rightarrow> (if i = [] then [] else [i])) ts)"

fun collect_tokens ::
  "'x polymarket_raw list \<Rightarrow> string list \<Rightarrow> (string \<times> string list) list \<Rightarrow>
   string list \<times> (string \<times> string list) list" where
  "collect_tokens [] all_token_ids market_token_mapping = (all_token_ids, market_token_mapping)"
| "collect_tokens (market_raw # rest) all_token_ids market_token_mapping =
     (case condition_id market_raw of
        None \<Rightarrow> collect_tokens rest all_token_ids market_token_mapping
      | Some cid \<Rightarrow>
          (if cid = [] then collect_tokens rest all_token_ids market_token_mapping
           else
             (let market_token_ids = truthy_ids (token_ids_of market_raw)
              in collect_tokens rest (all_token_ids @ market_token_ids)
                   (if market_token_ids \<noteq> []
                    then AList.update cid market_token_ids market_token_mapping
                    else market_token_mapping))))"

fun select_prices :: "string list \<Rightarrow> (string \<times> 'p) list \<Rightarrow> (string \<times> 'p) list \<Rightarrow> (string \<times> 'p) list" where
  "select_prices [] batch_prices market_prices = market_prices"
| "select_prices (t # ts) batch_prices market_prices =
     select_prices ts batch_prices
       (case map_of batch_prices t of
          Some v \<Rightarrow> AList.update t v market_prices
        | None \<Rightarrow> market_prices)"

definition convert_one ::
  "('x polymarket_raw \<Rightarrow> (string \<times> 'p) list \<Rightarrow> 'm option) \<Rightarrow> (string \<times> string list) list \<Rightarrow>
   (string \<times> 'p) list \<Rightarrow> 'x polymarket_raw \<Rightarrow> 'm option" where
  "convert_one convert market_token_mapping batch_prices market_raw =
     (let cid = (case condition_id market_raw of None \<Rightarrow> [] | Some c \<Rightarrow> c);
          market_token_ids = (case map_of market_token_mapping cid of None \<Rightarrow> [] | Some ts \<Rightarrow> ts)
      in convert market_raw (select_prices market_token_ids batch_prices []))"

definition convert_markets_with_batch_pricing ::
  "(book_params list \<Rightarrow> py_error + 'p prices_json) \<Rightarrow>
   ('x polymarket_raw \<Rightarrow> (string \<times> 'p) list \<Rightarrow> 'm option) \<Rightarrow> 'x polymarket_raw list \<Rightarrow> 'm list" where
  "convert_markets_with_batch_pricing post convert markets_data =
     (if markets_data = [] then []
      else
        (let (all_token_ids, market_token_mapping) = collect_tokens markets_data [] [];
             batch_prices =
               (if all_token_ids \<noteq> [] then
                  (case fst (get_market_prices post all_token_ids) of
                     None \<Rightarrow> []
                   | Some prices \<Rightarrow> prices)
                else [])
         in List.map_filter (convert_one convert market_token_mapping batch_prices) markets_data))"

subsection \<open>\<^verbatim>\<open>get_markets\<close>, \<^verbatim>\<open>get_markets_by_keyword\<close>, \<^verbatim>\<open>get_market_details\<close>\<close>

text \<open>
  \<^verbatim>\<open>_make_request('markets', params)\<close> is the environment \<open>fetch\<close>: given the
  \<^verbatim>\<open>next_cursor\<close> parameter (\<open>None\<close> when the request carries none) it raises or
  returns a page. A page is read with \<^verbatim>\<open>get('data', [])\<close> and
  \<^verbatim>\<open>get('next_cursor', '')\<close>; a falsy response is a page without data. The functions
  return, with their result, the cursor parameters of the page requests they made, in
  order. The source answers a request by its parameters alone: it holds one page per
  cursor. \<^verbatim>\<open>str.lower\<close> follows the Unicode tables of the Python runtime and is the
  parameter \<open>lower\<close>. The \<^verbatim>\<open>while True\<close> loops need not end (a source can hand out
  cursors forever): they are partial functions, and \<open>None\<close> is a run that never returns.
\<close>

record 'x polymarket_page =
  page_data :: "'x polymarket_raw list"
  page_next_cursor :: string

definition cursor_param :: "string \<Rightarrow> string option" where
  "cursor_param next_cursor = (if next_cursor \<noteq> [] then Some next_cursor else None)"

definition is_active :: "'x polymarket_raw \<Rightarrow> bool" where
  "is_active market_raw \<longleftrightarrow>
     (case active market_raw of None \<Rightarrow> False | Some a \<Rightarrow> a) \<and>
     \<not> (case closed market_raw of None \<Rightarrow> True | Some c \<Rightarrow> c)"

definition polymarket_keyword_match :: "(pystr \<Rightarrow> pystr) \<Rightarrow> pystr \<Rightarrow> 'x polymarket_raw \<Rightarrow> bool" where
  "polymarket_keyword_match lower keyword market_raw \<longleftrightarrow>
     is_active market_raw \<and>
     sublist (lower keyword) (lower (case question market_raw of None \<Rightarrow> [] | Some q \<Rightarrow> q))"

definition end_cursor :: string where
  "end_cursor = ''LTE=''"

partial_function (option) polymarket_keyword_loop ::
  "(string option \<Rightarrow> py_error + 'x polymarket_page) \<Rightarrow>
   (book_params list \<Rightarrow> py_error + 'p prices_json) \<Rightarrow>
   ('x polymarket_raw \<Rightarrow> (string \<times> 'p) list \<Rightarrow> 'm option) \<Rightarrow>
   (pystr \<Rightarrow> pystr) \<Rightarrow> pystr \<Rightarrow> string \<Rightarrow> 'm list \<Rightarrow> string option list \<Rightarrow>
   ((py_error + 'm list) \<times> string option list) option" where
  "polymarket_keyword_loop fetch post convert lower keyword next_cursor all_markets requested =
     (case fetch (cursor_param next_cursor) of
        Inl e \<Rightarrow> Some (Inl e, requested @ [cursor_param next_cursor])
      | Inr markets_response \<Rightarrow>
          (let markets_data = page_data markets_response;
               next_cursor' = page_next_cursor markets_response;
               requested' = requested @ [cursor_param next_cursor]
           in if markets_data = [] then Some (Inr all_markets, requested')
              else
                (let markets_to_process = filter (polymarket_keyword_match lower keyword) markets_data;
                     all_markets' =
                       (if markets_to_process \<noteq> []
                        then all_markets @ convert_markets_with_batch_pricing post convert markets_to_process
                        else all_markets)
                 in if next_cursor' = end_cursor \<or> next_cursor' = []
                    then Some (Inr all_markets', requested')
                    else polymarket_keyword_loop fetch post convert lower keyword
                           next_cursor' all_markets' requested')))"

declare polymarket_keyword_loop.simps [code]

definition polymarket_get_markets_by_keyword ::
  "(string option \<Rightarrow> py_error + 'x polymarket_page) \<Rightarrow>
   (book_params list \<Rightarrow> py_error + 'p prices_json) \<Rightarrow>
   ('x polymarket_raw \<Rightarrow> (string \<times> 'p) list \<Rightarrow> 'm option) \<Rightarrow>
   (pystr \<Rightarrow> pystr) \<Rightarrow> pystr \<Rightarrow> ((py_error + 'm list) \<times> string option list) option" where
  "polymarket_get_markets_by_keyword fetch post convert lower keyword =
     (case polymarket_keyword_loop fetch post convert lower keyword [] [] [] of
        None \<Rightarrow> None
      | Some (Inl e, requested) \<Rightarrow> Some (Inr [], requested)
      | Some (Inr all_markets, requested) \<Rightarrow> Some (Inr all_markets, requested))"

text \<open>
  \<^verbatim>\<open>xs[:n]\<close> for an integer \<open>n\<close>: a negative \<open>n\<close> counts from the end.
\<close>

definition py_slice_to :: "int \<Rightarrow> 'a list \<Rightarrow> 'a list" where
  "py_slice_to n xs = (if 0 \<le> n then take (nat n) xs else take (nat (int (length xs) + n)) xs)"

partial_function (option) polymarket_markets_loop ::
  "(string option \<Rightarrow> py_error + 'x polymarket_page) \<Rightarrow>
   (book_params list \<Rightarrow> py_error + 'p prices_json) \<Rightarrow>
   ('x polymarket_raw \<Rightarrow> (string \<times> 'p) list \<Rightarrow> 'm option) \<Rightarrow>
   int option \<Rightarrow> string \<Rightarrow> 'm list \<Rightarrow> string option list \<Rightarrow>
   ((py_error + 'm list) \<times> string option list) option" where
  "polymarket_markets_loop fetch post convert limit next_cursor all_markets requested =
     (case fetch (cursor_param next_cursor) of
        Inl e \<Rightarrow> Some (Inl e, requested @ [cursor_param next_cursor])
      | Inr markets_response \<Rightarrow>
          (let markets_data = page_data markets_response;
               next_cursor' = page_next_cursor markets_response;
               requested' = requested @ [cursor_param next_cursor]
           in if markets_data = [] then Some (Inr all_markets, requested')
              else
                (let markets_to_process = filter is_active markets_data;
                     all_markets' =
                       (if markets_to_process \<noteq> []
                        then all_markets @ convert_markets_with_batch_pricing post convert markets_to_process
                        else all_markets)
                 in if next_cursor' = end_cursor \<or> next_cursor' = []
                    then Some (Inr all_markets', requested')
                    else
                      (case limit of
                         None \<Rightarrow>
                           polymarket_markets_loop fetch post convert limit
                             next_cursor' all_markets' requested'
                       | Some n \<Rightarrow>
                           (if n \<noteq> 0 \<and> int (length all_markets') \<ge> n
                            then Some (Inr (py_slice_to n all_markets'), requested')
                            else polymarket_markets_loop fetch post convert limit
                                   next_cursor' all_markets' requested')))))"

declare polymarket_markets_loop.simps [code]

definition polymarket_get_markets ::
  "(string option \<Rightarrow> py_error + 'x polymarket_page) \<Rightarrow>
   (book_params list \<Rightarrow> py_error + 'p prices_json) \<Rightarrow>
   ('x polymarket_raw \<Rightarrow> (string \<times> 'p) list \<Rightarrow> 'm option) \<Rightarrow>
   int option \<Rightarrow> ((py_error + 'm list) \<times> string option list) option" where
  "polymarket_get_markets fetch post convert limit =
     (case polymarket_markets_loop fetch post convert limit [] [] [] of
        None \<Rightarrow> None
      | Some (Inl e, requested) \<Rightarrow> Some (Inr [], requested)
      | Some (Inr all_markets, requested) \<Rightarrow> Some (Inr all_markets, requested))"

text \<open>
  \<^verbatim>\<open>_make_request(f'markets/{market_id}')\<close> is the environment \<open>fetch_market\<close>; a falsy
  response is \<open>Inr None\<close>.
\<close>

definition polymarket_get_market_details ::
  "(string \<Rightarrow> py_error + 'x polymarket_raw option) \<Rightarrow>
   (book_params list \<Rightarrow> py_error + 'p prices_json) \<Rightarrow>
   ('x polymarket_raw \<Rightarrow> (string \<times> 'p) list \<Rightarrow> 'm option) \<Rightarrow>
   string \<Rightarrow> py_error + 'm option" where
  "polymarket_get_market_details fetch_market post convert market =
     (case fetch_market market of
        Inl e \<Rightarrow> Inr None
      | Inr None \<Rightarrow> Inr None
      | Inr (Some market_data) \<Rightarrow>
          (let ids = truthy_ids (token_ids_of market_data);
               market_prices =
                 (if ids \<noteq> [] then
                    (case fst (get_market_prices post ids) of
                       None \<Rightarrow> []
                     | Some prices_data \<Rightarrow> prices_data)
                  else [])
           in Inr (convert market_data market_prices)))"

section \<open>Kalshi client (kalshi\_client.py)\<close>

text \<open>
  As for Polymarket: a raw market with the fields the listing code reads, the converter
  \<^verbatim>\<open>_convert_to_standardized_market\<close> (which returns \<^verbatim>\<open>None\<close> on any failure) as a
  function \<open>convert\<close>, and \<^verbatim>\<open>_make_request('GET', 'markets', params)\<close> as the
  environment \<open>fetch\<close>, given the \<^verbatim>\<open>limit\<close> and \<^verbatim>\<open>cursor\<close> parameters of the request.
  A response is read with \<^verbatim>\<open>get('markets', [])\<close> and \<^verbatim>\<open>get('cursor')\<close>.
\<close>

record 'x kalshi_raw =
  kalshi_title :: "pystr option"
  kalshi_rules_primary :: "pystr option"
  kalshi_other_fields :: 'x

record kalshi_params =
  param_limit :: "int option"
  param_cursor :: "string option"

record 'x kalshi_page =
  page_markets :: "'x kalshi_raw list"
  page_cursor :: "string option"

definition cursor_truthy :: "string option \<Rightarrow> bool" where
  "cursor_truthy c = (case c of None \<Rightarrow> False | Some s \<Rightarrow> s \<noteq> [])"

definition kalshi_keyword_match :: "(pystr \<Rightarrow> pystr) \<Rightarrow> pystr \<Rightarrow> 'x kalshi_raw \<Rightarrow> bool" where
  "kalshi_keyword_match lower keyword market_raw \<longleftrightarrow>
     sublist (lower keyword) (lower (case kalshi_title market_raw of None \<Rightarrow> [] | Some t \<Rightarrow> t)) \<or>
     sublist (lower keyword)
       (lower (case kalshi_rules_primary market_raw of None \<Rightarrow> [] | Some d \<Rightarrow> d))"

definition kalshi_markets_request :: "int option \<Rightarrow> kalshi_params" where
  "kalshi_markets_request limit =
     \<lparr> param_limit = (case limit of None \<Rightarrow> None
                          | Some n \<Rightarrow> if n \<noteq> 0 then Some n else None),
       param_cursor = None \<rparr>"

definition kalshi_get_markets ::
  "(kalshi_params \<Rightarrow> py_error + 'x kalshi_page) \<Rightarrow> ('x kalshi_raw \<Rightarrow> 'm option) \<Rightarrow>
   int option \<Rightarrow> py_error + 'm list" where
  "kalshi_get_markets fetch convert limit =
     (let params = kalshi_markets_request limit
      in case fetch params of
           Inl e \<Rightarrow> Inl (APIError e)
         | Inr response \<Rightarrow> Inr (List.map_filter convert (page_markets response)))"

definition kalshi_request :: "string option \<Rightarrow> kalshi_params" where
  "kalshi_request cursor =
     \<lparr> param_limit = Some 200,
       param_cursor = (if cursor_truthy cursor then cursor else None) \<rparr>"

partial_function (option) kalshi_keyword_loop ::
  "(kalshi_params \<Rightarrow> py_error + 'x kalshi_page) \<Rightarrow> ('x kalshi_raw \<Rightarrow> 'm option) \<Rightarrow>
   (pystr \<Rightarrow> pystr) \<Rightarrow> pystr \<Rightarrow> string option \<Rightarrow> 'm list \<Rightarrow> kalshi_params list \<Rightarrow>
   ((py_error + 'm list) \<times> kalshi_params list) option" where
  "kalshi_keyword_loop fetch convert lower keyword cursor all_markets requested =
     (let params = kalshi_request cursor
      in case fetch params of
           Inl e \<Rightarrow> Some (Inl e, requested @ [params])
         | Inr response \<Rightarrow>
             (let market_data = page_markets response;
                  cursor' = page_cursor response
              in if market_data = [] then Some (Inr all_markets, requested @ [params])
                 else
                   (let all_markets' =
                          all_markets @
                          List.map_filter convert
                            (filter (kalshi_keyword_match lower keyword) market_data)
                    in if \<not> cursor_truthy cursor' \<or> length market_data < 200
                       then Some (Inr all_markets', requested @ [params])
                       else kalshi_keyword_loop fetch convert lower keyword
                              cursor' all_markets' (requested @ [params]))))"

declare kalshi_keyword_loop.simps [code]

definition kalshi_get_markets_by_keyword ::
  "(kalshi_params \<Rightarrow> py_error + 'x kalshi_page) \<Rightarrow> ('x kalshi_raw \<Rightarrow> 'm option) \<Rightarrow>
   (pystr \<Rightarrow> pystr) \<Rightarrow> pystr \<Rightarrow> ((py_error + 'm list) \<times> kalshi_params list) option" where
  "kalshi_get_markets_by_keyword fetch convert lower keyword =
     (case kalshi_keyword_loop fetch convert lower keyword None [] [] of
        None \<Rightarrow> None
      | Some (Inl e, requested) \<Rightarrow> Some (Inl (APIError e), requested)
      | Some (Inr all_markets, requested) \<Rightarrow> Some (Inr all_markets, requested))"

text \<open>
  \<^verbatim>\<open>_make_request('GET', f'markets/{market_id}')\<close> is the environment \<open>fetch_market\<close>,
  read with \<^verbatim>\<open>get('market', {})\<close>: \<open>Inr None\<close> is a response whose market is missing or
  empty.
\<close>

definition kalshi_get_market_details ::
  "(string \<Rightarrow> py_error + 'x kalshi_raw option) \<Rightarrow> ('x kalshi_raw \<Rightarrow> 'm option) \<Rightarrow>
   string \<Rightarrow> py_error + 'm option" where
  "kalshi_get_market_details fetch_market convert market =
     (case fetch_market market of
        Inl e \<Rightarrow> Inr None
      | Inr None \<Rightarrow> Inr None
      | Inr (Some market_data) \<Rightarrow> Inr (convert market_data))"

section \<open>Runs of the listing loops\<close>

text \<open>
  What a listing loop does is told by the pages its source hands out. A page
  \<^emph>\<open>continues\<close> the listing when the loop goes on to request another one after it. For
  Polymarket that is a page with data whose next cursor is neither empty nor the end
  sentinel; for Kalshi a page with data, a cursor, and no fewer than 200 records. A list
  of pages is a run from a cursor when each page is the answer to the request made with
  the cursor before it, and each continues. The pages of a run, the cursor after it and
  the requests made for it are by recursion along the list.
\<close>

definition polymarket_continues :: "'x polymarket_page \<Rightarrow> bool" where
  "polymarket_continues p \<longleftrightarrow>
     page_data p \<noteq> [] \<and> page_next_cursor p \<noteq> [] \<and> page_next_cursor p \<noteq> end_cursor"

fun polymarket_pages ::
  "(string option \<Rightarrow> py_error + 'x polymarket_page) \<Rightarrow> string \<Rightarrow> 'x polymarket_page list \<Rightarrow> bool" where
  "polymarket_pages fetch c [] = True"
| "polymarket_pages fetch c (p # ps) =
     (fetch (cursor_param c) = Inr p \<and> polymarket_continues p \<and>
      polymarket_pages fetch (page_next_cursor p) ps)"

fun next_cursor_after :: "string \<Rightarrow> 'x polymarket_page list \<Rightarrow> string" where
  "next_cursor_after c [] = c"
| "next_cursor_after c (p # ps) = next_cursor_after (page_next_cursor p) ps"

fun requested_cursors :: "string \<Rightarrow> 'x polymarket_page list \<Rightarrow> string option list" where
  "requested_cursors c [] = []"
| "requested_cursors c (p # ps) = cursor_param c # requested_cursors (page_next_cursor p) ps"

text \<open>The markets a page adds to the keyword listing, and to the listing of all markets.\<close>

definition polymarket_keyword_page ::
  "(book_params list \<Rightarrow> py_error + 'p prices_json) \<Rightarrow>
   ('x polymarket_raw \<Rightarrow> (string \<times> 'p) list \<Rightarrow> 'm option) \<Rightarrow>
   (pystr \<Rightarrow> pystr) \<Rightarrow> pystr \<Rightarrow> 'x polymarket_page \<Rightarrow> 'm list" where
  "polymarket_keyword_page post convert lower keyword p =
     convert_markets_with_batch_pricing post convert
       (filter (polymarket_keyword_match lower keyword) (page_data p))"

definition polymarket_active_page ::
  "(book_params list \<Rightarrow> py_error + 'p prices_json) \<Rightarrow>
   ('x polymarket_raw \<Rightarrow> (string \<times> 'p) list \<Rightarrow> 'm option) \<Rightarrow> 'x polymarket_page \<Rightarrow> 'm list" where
  "polymarket_active_page post convert p =
     convert_markets_with_batch_pricing post convert (filter is_active (page_data p))"

text \<open>
  \<^verbatim>\<open>get_markets\<close> also stops once a positive \<^verbatim>\<open>limit\<close> is reached; a run of it is a
  run whose pages each leave the list of markets below the limit.
\<close>

definition limit_reached :: "int option \<Rightarrow> 'm list \<Rightarrow> bool" where
  "limit_reached limit ms =
     (case limit of None \<Rightarrow> False | Some n \<Rightarrow> n \<noteq> 0 \<and> int (length ms) \<ge> n)"

fun polymarket_pages_below_limit ::
  "(string option \<Rightarrow> py_error + 'x polymarket_page) \<Rightarrow>
   (book_params list \<Rightarrow> py_error + 'p prices_json) \<Rightarrow>
   ('x polymarket_raw \<Rightarrow> (string \<times> 'p) list \<Rightarrow> 'm option) \<Rightarrow>
   int option \<Rightarrow> string \<Rightarrow> 'm list \<Rightarrow> 'x polymarket_page list \<Rightarrow> bool" where
  "polymarket_pages_below_limit fetch post convert limit c all_markets [] = True"
| "polymarket_pages_below_limit fetch post convert limit c all_markets (p # ps) =
     (fetch (cursor_param c) = Inr p \<and> polymarket_continues p \<and>
      \<not> limit_reached limit (all_markets @ polymarket_active_page post convert p) \<and>
      polymarket_pages_below_limit fetch post convert limit (page_next_cursor p)
        (all_markets @ polymarket_active_page post convert p) ps)"

definition kalshi_continues :: "'x kalshi_page \<Rightarrow> bool" where
  "kalshi_continues p \<longleftrightarrow>
     page_markets p \<noteq> [] \<and> cursor_truthy (page_cursor p) \<and> \<not> length (page_markets p) < 200"

fun kalshi_pages ::
  "(kalshi_params \<Rightarrow> py_error + 'x kalshi_page) \<Rightarrow> string option \<Rightarrow> 'x kalshi_page list \<Rightarrow> bool" where
  "kalshi_pages fetch c [] = True"
| "kalshi_pages fetch c (p # ps) =
     (fetch (kalshi_request c) = Inr p \<and> kalshi_continues p \<and>
      kalshi_pages fetch (page_cursor p) ps)"

fun kalshi_cursor_after :: "string option \<Rightarrow> 'x kalshi_page list \<Rightarrow> string option" where
  "kalshi_cursor_after c [] = c"
| "kalshi_cursor_after c (p # ps) = kalshi_cursor_after (page_cursor p) ps"

fun kalshi_requests :: "string option \<Rightarrow> 'x kalshi_page list \<Rightarrow> kalshi_params list" where
  "kalshi_requests c [] = []"
| "kalshi_requests c (p # ps) = kalshi_request c # kalshi_requests (page_cursor p) ps"

definition kalshi_keyword_page ::
  "('x kalshi_raw \<Rightarrow> 'm option) \<Rightarrow> (pystr \<Rightarrow> pystr) \<Rightarrow> pystr \<Rightarrow> 'x kalshi_page \<Rightarrow> 'm list" where
  "kalshi_keyword_page convert lower keyword p =
     List.map_filter convert (filter (kalshi_keyword_match lower keyword) (page_markets p))"

section \<open>Sample data\<close>

text \<open>Concrete markets, opportunities and sources, on which the results below are run.\<close>

definition priced_outcome :: "real option \<Rightarrow> real option \<Rightarrow> real option \<Rightarrow> MarketOutcome" where
  "priced_outcome y n l =
     \<lparr> outcome_id = ''o'', outcome_name = ''Yes'', yes_price = y, no_price = n,
       volume = None, last_trade_price = l, bid = None, ask = None, is_winner = None \<rparr>"

definition sample_market :: "MarketOutcome list \<Rightarrow> StandardizedMarket" where
  "sample_market os =
     \<lparr> market_id = ''M-1'', platform = KALSHI, title = str_lit ''Will it rain?'',
       description = str_lit ''Will it rain?'', market_type = BINARY, status = ACTIVE,
       category = None, subcategory = None, created_at = None, close_date = None,
       resolution_date = None, outcomes = os, total_volume = Some 5000,
       total_liquidity = None, tags = [], source_url = None,
       primary_question = str_lit ''it rain'', market_confidence_score = None \<rparr>"

definition sample_opportunity :: "real \<Rightarrow> ArbitrageOpportunity" where
  "sample_opportunity profit =
     \<lparr> opportunity_id = ''A-1'', market_1 = sample_market [], market_2 = sample_market [],
       profit_percentage = profit, required_investment = 1000, potential_profit = 10 * profit,
       risk_score = 1 / 4, confidence_score = 3 / 4, similarity_score = 3 / 4,
       price_difference = 1 / 8, llm_analysis = None, matching_rationale = None \<rparr>"

definition tokens_25 :: "string list" where
  "tokens_25 =
     [''t01'', ''t02'', ''t03'', ''t04'', ''t05'', ''t06'', ''t07'', ''t08'', ''t09'', ''t10'',
      ''t11'', ''t12'', ''t13'', ''t14'', ''t15'', ''t16'', ''t17'', ''t18'', ''t19'', ''t20'',
      ''t21'', ''t22'', ''t23'', ''t24'', ''t25'']"

text \<open>A price endpoint that quotes 50 for every token of the payload it is sent.\<close>

definition quote_all :: "book_params list \<Rightarrow> py_error + nat prices_json" where
  "quote_all payload = Inr (PricesDict (map (\<lambda>t. (t, 50)) (remdups (map fst payload))))"

text \<open>
  Lower-casing of ASCII letters, for \<^verbatim>\<open>str.lower\<close> on the sample titles; sources that
  answer the requests listed and fail in transport on any other; and converters that
  keep the identifier of a raw market (with its prices).
\<close>

definition ascii_lower :: "pystr \<Rightarrow> pystr" where
  "ascii_lower s = map (\<lambda>c. if 65 \<le> c \<and> c \<le> 90 then c + 32 else c) s"

definition sample_polymarket_raw :: "string \<Rightarrow> string \<Rightarrow> string list \<Rightarrow> unit polymarket_raw" where
  "sample_polymarket_raw cid q toks =
     \<lparr> condition_id = Some cid, question = Some (str_lit q), active = Some True,
       closed = Some False, token_ids_of = map Some toks, other_fields = () \<rparr>"

definition sample_polymarket_convert ::
  "unit polymarket_raw \<Rightarrow> (string \<times> nat) list \<Rightarrow> (string \<times> (string \<times> nat) list) option" where
  "sample_polymarket_convert market_raw prices =
     map_option (\<lambda>cid. (cid, prices)) (condition_id market_raw)"

definition polymarket_page_1 :: "unit polymarket_page" where
  "polymarket_page_1 =
     \<lparr> page_data = [sample_polymarket_raw ''c1'' ''Will Biden win?'' [''t1'', ''t2''],
                     sample_polymarket_raw ''c2'' ''Rain tomorrow?'' [''t3'']],
       page_next_cursor = ''MTA='' \<rparr>"

definition polymarket_page_2 :: "unit polymarket_page" where
  "polymarket_page_2 =
     \<lparr> page_data = [sample_polymarket_raw ''c3'' ''Biden approval above 40?'' [''t4'']],
       page_next_cursor = ''MjA='' \<rparr>"

definition polymarket_page_3 :: "unit polymarket_page" where
  "polymarket_page_3 =
     \<lparr> page_data = [sample_polymarket_raw ''c4'' ''Will BIDEN resign?'' [''t5'', ''t6'']],
       page_next_cursor = [] \<rparr>"

definition polymarket_source ::
  "(string option \<times> unit polymarket_page) list \<Rightarrow> string option \<Rightarrow>
   py_error + unit polymarket_page" where
  "polymarket_source pages c = (case map_of pages c of Some p \<Rightarrow> Inr p | None \<Rightarrow> Inl ClientError)"

definition three_page_polymarket :: "string option \<Rightarrow> py_error + unit polymarket_page" where
  "three_page_polymarket =
     polymarket_source [(None, polymarket_page_1), (Some ''MTA='', polymarket_page_2),
                        (Some ''MjA='', polymarket_page_3)]"

definition two_page_polymarket :: "string option \<Rightarrow> py_error + unit polymarket_page" where
  "two_page_polymarket =
     polymarket_source [(None, polymarket_page_1), (Some ''MTA='', polymarket_page_2)]"

definition sample_kalshi_raw :: "string \<Rightarrow> string \<Rightarrow> string kalshi_raw" where
  "sample_kalshi_raw ticker t =
     \<lparr> kalshi_title = Some (str_lit t), kalshi_rules_primary = None,
       kalshi_other_fields = ticker \<rparr>"

definition sample_kalshi_convert :: "string kalshi_raw \<Rightarrow> string option" where
  "sample_kalshi_convert market_raw =
     (case kalshi_title market_raw of None \<Rightarrow> None | Some t \<Rightarrow> Some (kalshi_other_fields market_raw))"

definition kalshi_page_1 :: "string kalshi_page" where
  "kalshi_page_1 =
     \<lparr> page_markets = replicate 200 (sample_kalshi_raw ''K1'' ''Will Biden win?''),
       page_cursor = Some ''a'' \<rparr>"

definition kalshi_page_2 :: "string kalshi_page" where
  "kalshi_page_2 =
     \<lparr> page_markets = sample_kalshi_raw ''K2'' ''Biden approval above 40?'' #
                      replicate 199 (sample_kalshi_raw ''K3'' ''Rain tomorrow?''),
       page_cursor = Some ''b'' \<rparr>"

definition kalshi_page_3 :: "string kalshi_page" where
  "kalshi_page_3 =
     \<lparr> page_markets = [sample_kalshi_raw ''K4'' ''Will BIDEN resign?''], page_cursor = None \<rparr>"

definition kalshi_short_page :: "string kalshi_page" where
  "kalshi_short_page =
     \<lparr> page_markets = [sample_kalshi_raw ''K1'' ''Will Biden win?''], page_cursor = Some ''a'' \<rparr>"

definition kalshi_source ::
  "(kalshi_params \<times> string kalshi_page) list \<Rightarrow> kalshi_params \<Rightarrow> py_error + string kalshi_page" where
  "kalshi_source pages params =
     (case map_of pages params of Some p \<Rightarrow> Inr p | None \<Rightarrow> Inl ClientError)"

definition three_page_kalshi :: "kalshi_params \<Rightarrow> py_error + string kalshi_page" where
  "three_page_kalshi =
     kalshi_source [(kalshi_request None, kalshi_page_1), (kalshi_request (Some ''a''), kalshi_page_2),
                    (kalshi_request (Some ''b''), kalshi_page_3)]"

definition short_page_kalshi :: "kalshi_params \<Rightarrow> py_error + string kalshi_page" where
  "short_page_kalshi =
     kalshi_source [(kalshi_request None, kalshi_short_page),
                    (kalshi_request (Some ''a''), kalshi_page_3)]"




section \<open>Properties of the detector\<close>

subsection \<open>Risk score\<close>

lemma risk_factors_lower_bound:
  "1 / 10 + (1 - (case match_similarity_score m of None \<Rightarrow> 5 / 10 | Some s \<Rightarrow> s)) * (4 / 10)
     \<le> sum_list (risk_factors m market1 market2)"
proof -
  have t: "0 \<le> sum_list (case (close_date market1, close_date market2) of
               (Some d1, Some d2) \<Rightarrow> (if \<bar>timedelta_days d1 d2\<bar> > 7 then [3 / 10] else [])
             | _ \<Rightarrow> ([]::real list))"
    by (simp split: option.splits)
  have v: "0 \<le> sum_list (if x > 3 / 10 then [3 / 10] else ([]::real list))" for x :: real
    by simp
  have l: "0 \<le> sum_list (if P then [2 / 10] else ([]::real list))" for P
    by simp
  show ?thesis
    unfolding risk_factors_def Let_def sum_list_append
    using t v [of "case match_price_difference m of None \<Rightarrow> 0 | Some d \<Rightarrow> d"]
      l [of "or_zero (total_volume market1) < 1000 \<or> or_zero (total_volume market2) < 1000"]
    by (simp only: sum_list.Cons sum_list.Nil)
qed

text \<open>
  Claim C4, as amended. For every match whose similarity score and price difference
  are numbers or absent, and every pair of markets (close dates that can be subtracted
  or absent, any volumes), the risk score never exceeds 1; and it is at least 0 whenever
  the similarity score is absent or at most 1, the range the data model gives it. The
  sum is capped at 1 and has no floor at 0.
\<close>

theorem risk_score_in_unit_interval:
  "calculate_risk_score m market1 market2 \<le> 1
   \<and> ((\<forall>s. match_similarity_score m = Some s \<longrightarrow> s \<le> 1) \<longrightarrow>
        0 \<le> calculate_risk_score m market1 market2)"
proof
  show "calculate_risk_score m market1 market2 \<le> 1"
    by (simp add: calculate_risk_score_def)
next
  show "(\<forall>s. match_similarity_score m = Some s \<longrightarrow> s \<le> 1) \<longrightarrow>
        0 \<le> calculate_risk_score m market1 market2"
  proof
    assume a: "\<forall>s. match_similarity_score m = Some s \<longrightarrow> s \<le> 1"
    have "0 \<le> (1 - (case match_similarity_score m of None \<Rightarrow> 5 / 10 | Some s \<Rightarrow> s)) * (4 / 10)"
      using a by (simp split: option.splits)
    with risk_factors_lower_bound [of m market1 market2]
    have "1 / 10 \<le> sum_list (risk_factors m market1 market2)" by linarith
    then show "0 \<le> calculate_risk_score m market1 market2"
      by (simp add: calculate_risk_score_def)
  qed
qed

theorem risk_score_in_unit_interval_witness:
  "(3 / 4 :: real) \<le> 1
   \<and> 0 \<le> calculate_risk_score \<lparr> match_similarity_score = Some (3 / 4), match_price_difference = Some (1 / 2) \<rparr>
          (sample_market []) (sample_market [])
   \<and> calculate_risk_score \<lparr> match_similarity_score = Some (3 / 4), match_price_difference = Some (1 / 2) \<rparr>
          (sample_market []) (sample_market []) \<le> 1"
  using risk_score_in_unit_interval
    [of "\<lparr> match_similarity_score = Some (3 / 4), match_price_difference = Some (1 / 2) \<rparr>"
        "sample_market []" "sample_market []"]
  by simp

text \<open>
  The claim as stated fails: with a similarity score of 2 and no other risk factor the
  sum is \<open>0.1 + 0.4 \<times> (1 - 2)\<close>, the cap at 1 does not lift it, and the score is
  negative.
\<close>

theorem risk_score_counterexample:
  "calculate_risk_score \<lparr> match_similarity_score = Some 2, match_price_difference = None \<rparr>
     (sample_market []) (sample_market []) < 0"
  by (simp add: calculate_risk_score_def risk_factors_def or_zero_def sample_market_def)

subsection \<open>Bet sizing\<close>

text \<open>
  Claim C5, as amended. Let the ratio be the profit percentage divided by 100, as the
  float division yields it. For every opportunity and every available capital such that
  neither the ratio nor the capital is zero, the win probability is \<open>1 - risk_score\<close>,
  the kelly fraction is win probability times ratio, divided by the ratio, times 0.5,
  the investment is the least of kelly fraction times capital, capital times maximal
  position fraction and the required investment, and the result carries the investment
  divided by the capital times 100, the expected profit (investment times the product
  of ratio and win probability) and the worst-case loss, investment times risk score,
  each operation rounded. In every other case the result is the fallback. When no
  operation rounds, the kelly fraction is half the win probability, and the result is
  the one the claim states.
\<close>

lemma fl_id: "fl (\<lambda>x. x) x = x"
  by (simp add: fl_def)

lemma fl_zero: "fl rnd 0 = 0"
  by (simp add: fl_def)

theorem bet_sizing_formula:
  "calculate_optimal_bet_sizing rnd opportunity available_capital max_position_size =
     (let win_probability = fl rnd (1 - risk_score opportunity);
          profit_ratio = fl rnd (profit_percentage opportunity / 100)
      in if profit_ratio = 0 \<or> available_capital = 0 then fallback_sizing opportunity
         else
           (let kelly =
                  fl rnd (fl rnd (fl rnd (win_probability * profit_ratio) / profit_ratio) * (1 / 2));
                investment =
                  min (fl rnd (kelly * available_capital))
                    (min (fl rnd (available_capital * max_position_size))
                       (required_investment opportunity))
            in \<lparr> optimal_investment = investment,
                 kelly_fraction = kelly,
                 position_percentage = fl rnd (fl rnd (investment / available_capital) * 100),
                 expected_profit = fl rnd (investment * fl rnd (profit_ratio * win_probability)),
                 max_loss = fl rnd (investment * risk_score opportunity) \<rparr>))
   \<and> (profit_percentage opportunity \<noteq> 0 \<and> available_capital \<noteq> 0 \<longrightarrow>
        calculate_optimal_bet_sizing (\<lambda>x. x) opportunity available_capital max_position_size =
          (let win_probability = 1 - risk_score opportunity;
               kelly = (1 / 2) * win_probability;
               investment =
                 min (kelly * available_capital)
                   (min (max_position_size * available_capital) (required_investment opportunity))
           in \<lparr> optimal_investment = investment,
                kelly_fraction = kelly,
                position_percentage = investment / available_capital * 100,
                expected_profit =
                  investment * (profit_percentage opportunity / 100 * win_probability),
                max_loss = investment * risk_score opportunity \<rparr>))"
proof
  show "calculate_optimal_bet_sizing rnd opportunity available_capital max_position_size =
     (let win_probability = fl rnd (1 - risk_score opportunity);
          profit_ratio = fl rnd (profit_percentage opportunity / 100)
      in if profit_ratio = 0 \<or> available_capital = 0 then fallback_sizing opportunity
         else
           (let kelly =
                  fl rnd (fl rnd (fl rnd (win_probability * profit_ratio) / profit_ratio) * (1 / 2));
                investment =
                  min (fl rnd (kelly * available_capital))
                    (min (fl rnd (available_capital * max_position_size))
                       (required_investment opportunity))
            in \<lparr> optimal_investment = investment,
                 kelly_fraction = kelly,
                 position_percentage = fl rnd (fl rnd (investment / available_capital) * 100),
                 expected_profit = fl rnd (investment * fl rnd (profit_ratio * win_probability)),
                 max_loss = fl rnd (investment * risk_score opportunity) \<rparr>))"
    by (simp add: calculate_optimal_bet_sizing_def bet_sizing_body_def fl_div_def Let_def)
next
  show "profit_percentage opportunity \<noteq> 0 \<and> available_capital \<noteq> 0 \<longrightarrow>
        calculate_optimal_bet_sizing (\<lambda>x. x) opportunity available_capital max_position_size =
          (let win_probability = 1 - risk_score opportunity;
               kelly = (1 / 2) * win_probability;
               investment =
                 min (kelly * available_capital)
                   (min (max_position_size * available_capital) (required_investment opportunity))
           in \<lparr> optimal_investment = investment,
                kelly_fraction = kelly,
                position_percentage = investment / available_capital * 100,
                expected_profit =
                  investment * (profit_percentage opportunity / 100 * win_probability),
                max_loss = investment * risk_score opportunity \<rparr>)"
    by (simp add: calculate_optimal_bet_sizing_def bet_sizing_body_def fl_div_def fl_id Let_def
        mult.commute)
qed

text \<open>
  The inputs of the witness are chosen so that every intermediate result is a dyadic
  rational that a double holds exactly: no operation rounds, and the values are the
  ones the code returns.
\<close>

theorem bet_sizing_formula_witness:
  "profit_percentage (sample_opportunity 50) \<noteq> 0 \<and> (16384::real) \<noteq> 0 \<and>
   fl (\<lambda>x. x) (profit_percentage (sample_opportunity 50) / 100) \<noteq> 0 \<and>
   calculate_optimal_bet_sizing (\<lambda>x. x) (sample_opportunity 50) 16384 (1 / 8) =
     \<lparr> optimal_investment = 1000, kelly_fraction = 3 / 8, position_percentage = 3125 / 512,
       expected_profit = 375, max_loss = 250 \<rparr>"
  using bet_sizing_formula [of "\<lambda>x. x" "sample_opportunity 50" 16384 "1 / 8"]
  by (simp add: sample_opportunity_def fl_id Let_def)

text \<open>
  The claim as stated fails at a profit percentage of zero: with a capital of 1024 and a
  position limit of one eighth the formula gives an investment of 128, and the function
  returns the required investment, 1000.
\<close>

theorem bet_sizing_counterexample:
  "optimal_investment (calculate_optimal_bet_sizing (\<lambda>x. x) (sample_opportunity 0) 1024 (1 / 8)) = 1000 \<and>
   min ((1 / 2) * (1 - risk_score (sample_opportunity 0)) * 1024)
     (min ((1 / 8) * 1024) (required_investment (sample_opportunity 0))) = 128"
  by (simp add: calculate_optimal_bet_sizing_def bet_sizing_body_def fl_div_def fl_id
      fallback_sizing_def sample_opportunity_def)

text \<open>
  Claim C10. For every opportunity whose profit percentage is zero, the kelly fraction
  is a division of zero by zero, and the function returns its fallback: the required
  investment, whatever the capital and the position limit, and zero for the kelly
  fraction, the position percentage, the expected profit and the maximal loss. This
  holds for every rounding.
\<close>

theorem zero_profit_fallback:
  assumes "profit_percentage opportunity = 0"
  shows "fl_div rnd
           (fl rnd (fl rnd (1 - risk_score opportunity) *
                    fl rnd (profit_percentage opportunity / 100)))
           (fl rnd (profit_percentage opportunity / 100)) = Inl ZeroDivisionError
     \<and> fl rnd (fl rnd (1 - risk_score opportunity) *
                fl rnd (profit_percentage opportunity / 100)) = 0
     \<and> calculate_optimal_bet_sizing rnd opportunity available_capital max_position_size =
         \<lparr> optimal_investment = required_investment opportunity, kelly_fraction = 0,
           position_percentage = 0, expected_profit = 0, max_loss = 0 \<rparr>"
  using assms
  by (simp add: calculate_optimal_bet_sizing_def bet_sizing_body_def fl_div_def fl_zero
      fallback_sizing_def)

theorem zero_profit_fallback_witness:
  "profit_percentage (sample_opportunity 0) = 0 \<and>
   calculate_optimal_bet_sizing (\<lambda>x. x) (sample_opportunity 0) 50 (1 / 10) =
     \<lparr> optimal_investment = 1000, kelly_fraction = 0,
       position_percentage = 0, expected_profit = 0, max_loss = 0 \<rparr>"
  using zero_profit_fallback [of "sample_opportunity 0" "\<lambda>x. x" 50 "1 / 10"]
  by (simp add: sample_opportunity_def)

subsection \<open>Best price\<close>

lemma yes_or_last_scan_find:
  "yes_or_last_scan os =
     (case find (\<lambda>outcome. yes_price outcome \<noteq> None \<or> last_trade_price outcome \<noteq> None) os of
        None \<Rightarrow> None
      | Some outcome \<Rightarrow>
          (case yes_price outcome of Some y \<Rightarrow> Some y | None \<Rightarrow> last_trade_price outcome))"
  by (induction os) (auto split: option.splits)

lemma no_price_scan_find:
  "no_price_scan os =
     (case find (\<lambda>outcome. no_price outcome \<noteq> None) os of
        None \<Rightarrow> None
      | Some outcome \<Rightarrow> map_option (\<lambda>p. 1 - p) (no_price outcome))"
  by (induction os) (auto split: option.splits)

lemma yes_or_last_scan_None:
  "yes_or_last_scan os = None \<longleftrightarrow>
     find (\<lambda>outcome. yes_price outcome \<noteq> None \<or> last_trade_price outcome \<noteq> None) os = None"
  by (induction os) auto

lemma yes_scan_first_present:
  "\<forall>outcome\<in>set os. last_trade_price outcome = None \<Longrightarrow>
     yes_or_last_scan os = first_present yes_price os"
  by (induction os) (auto simp: first_present_def List.map_filter_simps split: option.splits)

lemma last_first_present_None:
  "\<forall>outcome\<in>set os. last_trade_price outcome = None \<Longrightarrow> first_present last_trade_price os = None"
  by (induction os) (auto simp: first_present_def List.map_filter_simps split: option.splits)

lemma no_price_scan_first_present:
  "no_price_scan os = map_option (\<lambda>p. 1 - p) (first_present no_price os)"
  by (induction os) (auto simp: first_present_def List.map_filter_simps split: option.splits)

text \<open>
  Claim C6, as amended. For every canonical market, the best price is decided by the
  first outcome, in list order, that carries a \<open>yes_price\<close> or a \<open>last_trade_price\<close>: it
  is that outcome's \<open>yes_price\<close> if present, else its \<open>last_trade_price\<close>. If no outcome
  carries either, it is one minus the first present \<open>no_price\<close>, else absent. A market
  without a price (no outcomes, or none carrying any of the three) makes the pair
  rejected, on either side. Where no outcome carries a \<open>last_trade_price\<close>, this is the
  order of the specification.
\<close>

theorem best_price_first_priced_outcome:
  "get_best_price market =
     (case find (\<lambda>outcome. yes_price outcome \<noteq> None \<or> last_trade_price outcome \<noteq> None)
             (outcomes market) of
        Some outcome \<Rightarrow>
          (case yes_price outcome of Some y \<Rightarrow> Some y | None \<Rightarrow> last_trade_price outcome)
      | None \<Rightarrow>
          (case find (\<lambda>outcome. no_price outcome \<noteq> None) (outcomes market) of
             Some outcome \<Rightarrow> map_option (\<lambda>p. 1 - p) (no_price outcome)
           | None \<Rightarrow> None))
   \<and> (get_best_price market = None \<longrightarrow>
        calculate_arbitrage_opportunity market other = None \<and>
        calculate_arbitrage_opportunity other market = None)
   \<and> ((\<forall>outcome\<in>set (outcomes market). last_trade_price outcome = None) \<longrightarrow>
        get_best_price market = spec_best_price market)"
proof (intro conjI impI)
  show "get_best_price market =
     (case find (\<lambda>outcome. yes_price outcome \<noteq> None \<or> last_trade_price outcome \<noteq> None)
             (outcomes market) of
        Some outcome \<Rightarrow>
          (case yes_price outcome of Some y \<Rightarrow> Some y | None \<Rightarrow> last_trade_price outcome)
      | None \<Rightarrow>
          (case find (\<lambda>outcome. no_price outcome \<noteq> None) (outcomes market) of
             Some outcome \<Rightarrow> map_option (\<lambda>p. 1 - p) (no_price outcome)
           | None \<Rightarrow> None))"
  proof (cases "find (\<lambda>outcome. yes_price outcome \<noteq> None \<or> last_trade_price outcome \<noteq> None)
             (outcomes market)")
    case None
    then show ?thesis
      unfolding get_best_price_def
      by (cases "outcomes market")
        (simp_all add: yes_or_last_scan_find no_price_scan_find del: not_None_eq)
  next
    case (Some outcome)
    then have "yes_price outcome \<noteq> None \<or> last_trade_price outcome \<noteq> None"
      by (auto simp: find_Some_iff)
    moreover from Some have "outcomes market \<noteq> []" by auto
    ultimately show ?thesis
      unfolding get_best_price_def using Some
      by (auto simp: yes_or_last_scan_find simp del: not_None_eq split: option.splits)
  qed
next
  assume "get_best_price market = None"
  then show "calculate_arbitrage_opportunity market other = None"
    by (simp add: calculate_arbitrage_opportunity_def)
next
  assume "get_best_price market = None"
  then show "calculate_arbitrage_opportunity other market = None"
    by (simp add: calculate_arbitrage_opportunity_def split: option.splits)
next
  assume a: "\<forall>outcome\<in>set (outcomes market). last_trade_price outcome = None"
  show "get_best_price market = spec_best_price market"
  proof (cases "outcomes market")
    case Nil
    then show ?thesis
      by (simp add: get_best_price_def spec_best_price_def first_present_def
          List.map_filter_simps)
  next
    case (Cons x xs)
    then have "outcomes market \<noteq> []" by simp
    then show ?thesis
      unfolding get_best_price_def spec_best_price_def
      by (simp add: yes_scan_first_present [OF a] last_first_present_None [OF a]
          no_price_scan_first_present split: option.splits)
  qed
qed

theorem best_price_witness:
  "get_best_price (sample_market []) = None \<and>
   calculate_arbitrage_opportunity (sample_market [])
     (sample_market [priced_outcome None (Some (1 / 4)) None]) = None \<and>
   get_best_price (sample_market [priced_outcome None (Some (1 / 4)) None]) =
     spec_best_price (sample_market [priced_outcome None (Some (1 / 4)) None]) \<and>
   spec_best_price (sample_market [priced_outcome None (Some (1 / 4)) None]) = Some (3 / 4)"
proof -
  let ?m = "sample_market [priced_outcome None (Some (1 / 4)) None]"
  have none: "get_best_price (sample_market []) = None"
    by (simp add: get_best_price_def sample_market_def)
  with best_price_first_priced_outcome [of "sample_market []" ?m, THEN conjunct2, THEN conjunct1]
  have rejected: "calculate_arbitrage_opportunity (sample_market []) ?m = None" by simp
  have "\<forall>outcome\<in>set (outcomes ?m). last_trade_price outcome = None"
    by (simp add: sample_market_def priced_outcome_def)
  with best_price_first_priced_outcome [of ?m ?m, THEN conjunct2, THEN conjunct2]
  have agree: "get_best_price ?m = spec_best_price ?m" by blast
  have "spec_best_price ?m = Some (3 / 4)"
    by (simp add: spec_best_price_def first_present_def List.map_filter_simps sample_market_def
        priced_outcome_def)
  with none rejected agree show ?thesis by blast
qed

text \<open>
  The claim as stated fails when an outcome with only a \<open>last_trade_price\<close> stands before
  one with a \<open>yes_price\<close>: the loop returns the former, the stated order the latter.
\<close>

theorem best_price_counterexample:
  "get_best_price (sample_market [priced_outcome None None (Some (3 / 10)),
                                  priced_outcome (Some (6 / 10)) None None]) = Some (3 / 10) \<and>
   spec_best_price (sample_market [priced_outcome None None (Some (3 / 10)),
                                  priced_outcome (Some (6 / 10)) None None]) = Some (6 / 10)"
  by (simp add: get_best_price_def spec_best_price_def first_present_def
      List.map_filter_simps sample_market_def priced_outcome_def)

subsection \<open>Price normalization\<close>

text \<open>
  Claim C8, as amended. Price normalization returns every \<open>p \<le> 1\<close> unchanged (so every
  \<open>p\<close> in \<open>[0,1]\<close>), returns \<open>p / 100\<close> for every \<open>p\<close> in \<open>(1, 100]\<close>, and returns exactly
  1 for every \<open>p > 100\<close>; a cents-scaled price is thus divided by 100 only when it exceeds
  1. \<^verbatim>\<open>_calculate_arbitrage\<close> applies the guard to both of its prices: its result
  depends on them through their normalization only.
\<close>

theorem normalize_price_cases:
  "(p \<le> 1 \<longrightarrow> normalize_price p = p) \<and>
   (1 < p \<and> p \<le> 100 \<longrightarrow> normalize_price p = p / 100) \<and>
   (100 < p \<longrightarrow> normalize_price p = 1) \<and>
   calculate_arbitrage default_investment p q =
     calculate_arbitrage default_investment (normalize_price p) (normalize_price q)"
  by (simp add: normalize_price_def calculate_arbitrage_def calculate_arbitrage_body_def)

theorem normalize_price_cases_witness:
  "normalize_price (1 / 2) = 1 / 2 \<and> normalize_price 55 = 55 / 100 \<and> normalize_price 250 = 1 \<and>
   calculate_arbitrage 1000 40 55 = calculate_arbitrage 1000 (2 / 5) (11 / 20)"
  using normalize_price_cases [of "1 / 2" 1000 55] normalize_price_cases [of 55 1000 55]
    normalize_price_cases [of 250 1000 55] normalize_price_cases [of 40 1000 55]
  by (simp add: normalize_price_def)

text \<open>
  The claim as stated fails for a cents-scaled price of 1 (one cent): it is taken to be
  normalized already and returned as 1, not as 0.01.
\<close>

theorem normalize_price_counterexample:
  "normalize_price 1 \<noteq> 1 / 100"
  by (simp add: normalize_price_def)

text \<open>
  \<^verbatim>\<open>_calculate_arbitrage_opportunity\<close> compares the best prices as they are: prices of 40
  and 55 give a spread of 15.
\<close>

lemma pair_path_not_normalized:
  "map_option pair_spread
     (calculate_arbitrage_opportunity (sample_market [priced_outcome (Some 40) None None])
        (sample_market [priced_outcome (Some 55) None None])) = Some 15"
  by (simp add: calculate_arbitrage_opportunity_def get_best_price_def sample_market_def priced_outcome_def Let_def)

section \<open>Properties of the primary-question extraction\<close>

lemma remove_first_prefix_split:
  "\<exists>p. txt = p @ remove_first_prefix ps txt \<and>
       (p \<in> set ps \<or> p = [] \<and> (\<forall>q\<in>set ps. \<not> prefix q txt))"
proof (induction ps)
  case Nil
  then show ?case by simp
next
  case (Cons a ps)
  show ?case
  proof (cases "prefix a txt")
    case True
    then have "txt = a @ drop (length a) txt"
      by (metis append_eq_conv_conj prefixE)
    with True show ?thesis by auto
  next
    case False
    with Cons show ?thesis by auto
  qed
qed

lemma rstrip_while_split:
  "\<exists>ys. s = rev (dropWhile P (rev s)) @ ys \<and> (\<forall>y\<in>set ys. P y) \<and>
        (rev (dropWhile P (rev s)) \<noteq> [] \<longrightarrow> \<not> P (last (rev (dropWhile P (rev s)))))"
proof -
  let ?d = "dropWhile P (rev s)" and ?t = "takeWhile P (rev s)"
  have "s = rev (rev s)" by simp
  also have "\<dots> = rev (?t @ ?d)" by (simp only: takeWhile_dropWhile_id)
  also have "\<dots> = rev ?d @ rev ?t" by (simp only: rev_append)
  finally have 1: "s = rev ?d @ rev ?t" .
  have 2: "\<forall>y\<in>set (rev ?t). P y" by (auto dest: set_takeWhileD)
  have 3: "rev ?d \<noteq> [] \<longrightarrow> \<not> P (last (rev ?d))"
    by (simp add: last_rev hd_dropWhile)
  from 1 2 3 show ?thesis by blast
qed

lemma rstrip_char_split:
  "\<exists>n. s = rstrip_char c s @ replicate n c \<and> (rstrip_char c s \<noteq> [] \<longrightarrow> last (rstrip_char c s) \<noteq> c)"
proof -
  obtain ys where ys: "s = rstrip_char c s @ ys" "\<forall>y\<in>set ys. y = c"
      "rstrip_char c s \<noteq> [] \<longrightarrow> last (rstrip_char c s) \<noteq> c"
    using rstrip_while_split [of s "\<lambda>x. x = c"] unfolding rstrip_char_def by blast
  from ys(2) have "replicate (length ys) c = ys"
    by (simp add: replicate_length_same)
  with ys show ?thesis by metis
qed

lemma py_strip_split:
  "\<exists>ws1 ws2. s = ws1 @ py_strip s @ ws2 \<and> (\<forall>c\<in>set (ws1 @ ws2). is_space c) \<and>
     (py_strip s \<noteq> [] \<longrightarrow> \<not> is_space (hd (py_strip s)) \<and> \<not> is_space (last (py_strip s)))"
proof -
  let ?t = "dropWhile is_space s"
  have 1: "s = takeWhile is_space s @ ?t" by simp
  have 2: "\<forall>c\<in>set (takeWhile is_space s). is_space c" by (auto dest: set_takeWhileD)
  obtain ys where ys: "?t = py_strip s @ ys" "\<forall>y\<in>set ys. is_space y"
      "py_strip s \<noteq> [] \<longrightarrow> \<not> is_space (last (py_strip s))"
    using rstrip_while_split [of ?t is_space]
    unfolding py_strip_def py_rstrip_def py_lstrip_def by blast
  have 3: "py_strip s \<noteq> [] \<longrightarrow> \<not> is_space (hd (py_strip s))"
  proof
    assume ne: "py_strip s \<noteq> []"
    with ys(1) have "hd ?t = hd (py_strip s)" by (metis hd_append2)
    moreover from ne ys(1) have "?t \<noteq> []" by auto
    ultimately show "\<not> is_space (hd (py_strip s))" by (metis hd_dropWhile)
  qed
  from 1 ys(1) have "s = takeWhile is_space s @ py_strip s @ ys" by simp
  with 2 ys(2,3) 3 show ?thesis by (metis Un_iff set_append)
qed

lemma kalshi_extract_shape:
  "\<exists>p ws1 core ws2 n.
      t = p @ ws1 @ core @ ws2 @ replicate n question_mark
    \<and> (p \<in> set prefixes_to_remove \<or> p = [] \<and> (\<forall>q\<in>set prefixes_to_remove. \<not> prefix q t))
    \<and> (\<forall>c\<in>set (ws1 @ ws2). is_space c)
    \<and> (core \<noteq> [] \<longrightarrow> \<not> is_space (hd core) \<and> \<not> is_space (last core))
    \<and> (ws1 @ core @ ws2 \<noteq> [] \<longrightarrow> last (ws1 @ core @ ws2) \<noteq> question_mark)
    \<and> kalshi_extract_primary_question t d = ensure_length core"
proof -
  let ?r = "remove_first_prefix prefixes_to_remove t"
  let ?s = "rstrip_char question_mark ?r"
  obtain p where p: "t = p @ ?r"
      "p \<in> set prefixes_to_remove \<or> p = [] \<and> (\<forall>q\<in>set prefixes_to_remove. \<not> prefix q t)"
    using remove_first_prefix_split by blast
  obtain n where n: "?r = ?s @ replicate n question_mark" "?s \<noteq> [] \<longrightarrow> last ?s \<noteq> question_mark"
    using rstrip_char_split by blast
  obtain ws1 ws2 where w: "?s = ws1 @ py_strip ?s @ ws2" "\<forall>c\<in>set (ws1 @ ws2). is_space c"
      "py_strip ?s \<noteq> [] \<longrightarrow> \<not> is_space (hd (py_strip ?s)) \<and> \<not> is_space (last (py_strip ?s))"
    using py_strip_split by blast
  have a: "t = p @ ws1 @ py_strip ?s @ ws2 @ replicate n question_mark"
    using p(1) n(1) w(1) by (metis append.assoc)
  have b: "ws1 @ py_strip ?s @ ws2 \<noteq> [] \<longrightarrow> last (ws1 @ py_strip ?s @ ws2) \<noteq> question_mark"
    using n(2) w(1) by metis
  have c: "kalshi_extract_primary_question t d = ensure_length (py_strip ?s)"
    by (simp add: kalshi_extract_primary_question_def)
  from a p(2) w(2,3) b c show ?thesis by blast
qed

lemma polymarket_extract_shape:
  "\<exists>ws1 p core ws2.
      remove_char question_mark t = ws1 @ p @ core @ ws2
    \<and> (\<forall>c\<in>set (ws1 @ ws2). is_space c)
    \<and> (p @ core \<noteq> [] \<longrightarrow> \<not> is_space (hd (p @ core)) \<and> \<not> is_space (last (p @ core)))
    \<and> (p \<in> set prefixes_to_remove \<or> p = [] \<and> (\<forall>q\<in>set prefixes_to_remove. \<not> prefix q core))
    \<and> polymarket_extract_primary_question t d = ensure_length core"
proof -
  let ?s = "py_strip (remove_char question_mark t)"
  let ?r = "remove_first_prefix prefixes_to_remove ?s"
  obtain ws1 ws2 where w: "remove_char question_mark t = ws1 @ ?s @ ws2" "\<forall>c\<in>set (ws1 @ ws2). is_space c"
      "?s \<noteq> [] \<longrightarrow> \<not> is_space (hd ?s) \<and> \<not> is_space (last ?s)"
    using py_strip_split by blast
  obtain p where p: "?s = p @ ?r"
      "p \<in> set prefixes_to_remove \<or> p = [] \<and> (\<forall>q\<in>set prefixes_to_remove. \<not> prefix q ?s)"
    using remove_first_prefix_split by blast
  have a: "remove_char question_mark t = ws1 @ p @ ?r @ ws2"
    using w(1) p(1) by (metis append.assoc)
  have b: "p @ ?r \<noteq> [] \<longrightarrow> \<not> is_space (hd (p @ ?r)) \<and> \<not> is_space (last (p @ ?r))"
    using w(3) p(1) by metis
  have c: "p \<in> set prefixes_to_remove \<or> p = [] \<and> (\<forall>q\<in>set prefixes_to_remove. \<not> prefix q ?r)"
    using p by (metis append_Nil)
  have e: "polymarket_extract_primary_question t d = ensure_length ?r"
    by (simp add: polymarket_extract_primary_question_def)
  from a w(2) b c e show ?thesis by blast
qed

text \<open>
  Claim C9, as amended. The Kalshi extraction removes at most one leading prefix of the
  list, then every trailing question mark, then leading and trailing whitespace: the
  title is a prefix (or nothing, when no prefix of the list starts the title),
  whitespace, a core, whitespace and question marks, and the result is the core. The
  Polymarket extraction removes every question mark of the title, wherever it stands,
  then leading and trailing whitespace, then at most one leading prefix. Both cut a
  result longer than 200 characters to its first 200 characters followed by three dots,
  and leave a shorter one as it is.
\<close>

theorem extract_primary_question_shape:
  "(\<exists>p ws1 core ws2 n.
      t = p @ ws1 @ core @ ws2 @ replicate n question_mark
    \<and> (p \<in> set prefixes_to_remove \<or> p = [] \<and> (\<forall>q\<in>set prefixes_to_remove. \<not> prefix q t))
    \<and> (\<forall>c\<in>set (ws1 @ ws2). is_space c)
    \<and> (core \<noteq> [] \<longrightarrow> \<not> is_space (hd core) \<and> \<not> is_space (last core))
    \<and> (ws1 @ core @ ws2 \<noteq> [] \<longrightarrow> last (ws1 @ core @ ws2) \<noteq> question_mark)
    \<and> kalshi_extract_primary_question t d = ensure_length core)
   \<and> (\<exists>ws1 p core ws2.
      remove_char question_mark t = ws1 @ p @ core @ ws2
    \<and> (\<forall>c\<in>set (ws1 @ ws2). is_space c)
    \<and> (p @ core \<noteq> [] \<longrightarrow> \<not> is_space (hd (p @ core)) \<and> \<not> is_space (last (p @ core)))
    \<and> (p \<in> set prefixes_to_remove \<or> p = [] \<and> (\<forall>q\<in>set prefixes_to_remove. \<not> prefix q core))
    \<and> polymarket_extract_primary_question t d = ensure_length core)
   \<and> (length q \<le> 200 \<longrightarrow> ensure_length q = q)
   \<and> (200 < length q \<longrightarrow>
        ensure_length q = take 200 q @ str_lit ''...'' \<and> length (ensure_length q) = 203)"
  using kalshi_extract_shape [of t d] polymarket_extract_shape [of t d]
  by (simp add: ensure_length_def str_lit_def)

theorem extract_primary_question_shape_witness:
  "kalshi_extract_primary_question (str_lit ''Will Is it rain??'') [] = str_lit ''Is it rain'' \<and>
   polymarket_extract_primary_question (str_lit '' Will it rain? '') [] = str_lit ''it rain'' \<and>
   length (replicate 201 (120::nat)) > 200 \<and>
   ensure_length (replicate 201 120) = replicate 200 120 @ str_lit ''...''"
proof -
  have a: "kalshi_extract_primary_question (str_lit ''Will Is it rain??'') [] = str_lit ''Is it rain''"
    by (simp add: kalshi_extract_primary_question_def str_lit_def rstrip_char_def
        question_mark_def py_strip_def py_lstrip_def py_rstrip_def is_space_def
        prefixes_to_remove_def ensure_length_def)
  have b: "polymarket_extract_primary_question (str_lit '' Will it rain? '') [] = str_lit ''it rain''"
    by (simp add: polymarket_extract_primary_question_def str_lit_def remove_char_def
        question_mark_def py_strip_def py_lstrip_def py_rstrip_def is_space_def
        prefixes_to_remove_def ensure_length_def)
  have c: "length (replicate 201 (120::nat)) > 200" by simp
  from extract_primary_question_shape [of "[]" "[]" "replicate 201 120",
         THEN conjunct2, THEN conjunct2, THEN conjunct2] c
  have "ensure_length (replicate 201 120) = take 200 (replicate 201 (120::nat)) @ str_lit ''...''"
    by blast
  then have "ensure_length (replicate 201 120) = replicate 200 120 @ str_lit ''...''"
    by simp
  with a b c show ?thesis by blast
qed

text \<open>
  The claim as stated fails on characters other than the prefix and the trailing
  question mark: Polymarket drops a question mark inside the title, and Kalshi strips a
  trailing blank (and then keeps the question mark before it).
\<close>

theorem extract_primary_question_counterexample:
  "polymarket_extract_primary_question (str_lit ''Is it? Really'') [] = str_lit ''it Really'' \<and>
   spec_extract_primary_question (str_lit ''Is it? Really'') = str_lit ''it? Really'' \<and>
   kalshi_extract_primary_question (str_lit ''Will it rain? '') [] = str_lit ''it rain?'' \<and>
   spec_extract_primary_question (str_lit ''Will it rain? '') = str_lit ''it rain? ''"
  by (simp add: polymarket_extract_primary_question_def kalshi_extract_primary_question_def
      spec_extract_primary_question_def spec_strip_trailing_question_mark_def
      str_lit_def remove_char_def rstrip_char_def question_mark_def py_strip_def
      py_lstrip_def py_rstrip_def is_space_def prefixes_to_remove_def ensure_length_def)

section \<open>Properties of the Polymarket batch price request\<close>

lemma price_request_loop_length:
  "length (snd (price_request_loop post chunk ts payload all_prices posted)) = length posted + length ts"
proof (induction ts arbitrary: payload all_prices posted)
  case Nil
  show ?case by simp
next
  case (Cons t ts)
  show ?case
    by (simp add: Let_def Cons.IH split: sum.splits)
qed

lemma chunk_loop_last:
  "starts \<noteq> [] \<Longrightarrow> chunk_loop ids starts vars = Some (last starts, take chunk_size (drop (last starts) ids))"
  by (induction starts arbitrary: vars) auto

lemma div_step: "0 < n \<Longrightarrow> (n + 10 - 1) div 10 = Suc ((n - 1) div (10::nat))"
  by (cases n) (simp_all add: div_add_self2)

lemma py_range_last:
  assumes n: "0 < n"
  shows "py_range n chunk_size \<noteq> [] \<and> last (py_range n chunk_size) = ((n - 1) div chunk_size) * chunk_size"
proof -
  have d: "(n + 10 - 1) div 10 = Suc ((n - 1) div 10)" using n by (rule div_step)
  show ?thesis
    unfolding py_range_def chunk_size_def d
    by (simp add: last_map)
qed

lemma last_chunk_length:
  "0 < n \<Longrightarrow> n - ((n - 1) div 10) * 10 = (n - 1) mod 10 + (1::nat)"
proof -
  assume "0 < n"
  then obtain m where m: "n = Suc m" by (cases n) auto
  have "m = (m div 10) * 10 + m mod 10" by simp
  then have "Suc m - (m div 10) * 10 = m mod 10 + 1" by linarith
  then show ?thesis by (simp add: m)
qed

lemma get_market_prices_requests:
  assumes "token_ids \<noteq> []"
  shows "length (snd (get_market_prices post token_ids)) = (length token_ids - 1) mod chunk_size + 1"
proof -
  let ?n = "length token_ids"
  let ?starts = "py_range ?n chunk_size"
  from assms have n: "0 < ?n" by simp
  from py_range_last [OF n] have ne: "?starts \<noteq> []"
    and l: "last ?starts = ((?n - 1) div chunk_size) * chunk_size" by simp_all
  let ?chunk = "take chunk_size (drop (last ?starts) token_ids)"
  have c: "chunk_loop token_ids ?starts None = Some (last ?starts, ?chunk)"
    by (rule chunk_loop_last [OF ne])
  have "length ?chunk = min chunk_size (?n - ((?n - 1) div chunk_size) * chunk_size)"
    by (simp only: length_take length_drop l)
  also have "\<dots> = (?n - 1) mod chunk_size + 1"
    using last_chunk_length [OF n] by (simp add: chunk_size_def)
  finally have len: "length ?chunk = (?n - 1) mod chunk_size + 1" .
  have "snd (get_market_prices post token_ids) =
      snd (price_request_loop post ?chunk ?chunk [] [] [])"
    using assms by (simp add: get_market_prices_def c split: prod.splits)
  then show ?thesis
    by (simp only: price_request_loop_length len list.size add_0)
qed

text \<open>
  Claim C1. The specification, the docstring and the comments of \<^verbatim>\<open>get_market_prices\<close>
  describe chunks of 10 ids, one request of up to 20 entries per chunk. The code does
  not do that: the request stands outside the chunk loop, in a loop over the ids of the
  last chunk. For 25 ids it posts five payloads, of 2, 4, 6, 8 and 10 entries, all about
  the ids 21 to 25, and returns prices for these five only; the described behaviour is
  three payloads of 20, 20 and 10 entries. In general (\<open>get_market_prices_requests\<close>)
  the number of requests is the length of the last chunk.
\<close>

theorem get_market_prices_25_tokens:
  "map length (snd (get_market_prices quote_all tokens_25)) = [2, 4, 6, 8, 10] \<and>
   map_option (map fst) (fst (get_market_prices quote_all tokens_25)) = Some (drop 20 tokens_25) \<and>
   map length (spec_payloads tokens_25) = [20, 20, 10]"
  by code_simp

section \<open>Properties of the request layer\<close>
















section \<open>Properties of the listing functions\<close>

subsection \<open>The loops along a run\<close>

lemma convert_batch_Nil [simp]: "convert_markets_with_batch_pricing post convert [] = []"
  by (simp add: convert_markets_with_batch_pricing_def)

lemma polymarket_keyword_step:
  assumes "fetch (cursor_param c) = Inr p" and "polymarket_continues p"
  shows "polymarket_keyword_loop fetch post convert lower keyword c all_markets requested =
     polymarket_keyword_loop fetch post convert lower keyword (page_next_cursor p)
       (all_markets @ polymarket_keyword_page post convert lower keyword p)
       (requested @ [cursor_param c])"
  using assms
  by (subst polymarket_keyword_loop.simps)
    (simp add: polymarket_continues_def polymarket_keyword_page_def Let_def)

lemma polymarket_keyword_end:
  assumes "fetch (cursor_param c) = Inr p" and "\<not> polymarket_continues p"
  shows "polymarket_keyword_loop fetch post convert lower keyword c all_markets requested =
     Some (Inr (all_markets @ polymarket_keyword_page post convert lower keyword p),
           requested @ [cursor_param c])"
  using assms
  by (subst polymarket_keyword_loop.simps)
    (auto simp add: polymarket_continues_def polymarket_keyword_page_def Let_def)

lemma polymarket_keyword_fail:
  assumes "fetch (cursor_param c) = Inl e"
  shows "polymarket_keyword_loop fetch post convert lower keyword c all_markets requested =
     Some (Inl e, requested @ [cursor_param c])"
  using assms
  by (subst polymarket_keyword_loop.simps) simp

lemma polymarket_keyword_run:
  assumes "polymarket_pages fetch c ps"
  shows "polymarket_keyword_loop fetch post convert lower keyword c all_markets requested =
     polymarket_keyword_loop fetch post convert lower keyword (next_cursor_after c ps)
       (all_markets @ concat (map (polymarket_keyword_page post convert lower keyword) ps))
       (requested @ requested_cursors c ps)"
  using assms
proof (induction ps arbitrary: c all_markets requested)
  case Nil
  show ?case by simp
next
  case (Cons p ps)
  then have f: "fetch (cursor_param c) = Inr p" and k: "polymarket_continues p"
    and r: "polymarket_pages fetch (page_next_cursor p) ps" by simp_all
  show ?case
    by (simp add: polymarket_keyword_step [of fetch c p, OF f k] Cons.IH [OF r])
qed

lemma requested_cursors_append:
  "requested_cursors c (ps @ [p]) = requested_cursors c ps @ [cursor_param (next_cursor_after c ps)]"
  by (induction ps arbitrary: c) simp_all

lemma length_requested_cursors: "length (requested_cursors c ps) = length ps"
  by (induction ps arbitrary: c) simp_all


lemma polymarket_markets_step:
  assumes "fetch (cursor_param c) = Inr p" and "polymarket_continues p"
    and "\<not> limit_reached limit (all_markets @ polymarket_active_page post convert p)"
  shows "polymarket_markets_loop fetch post convert limit c all_markets requested =
     polymarket_markets_loop fetch post convert limit (page_next_cursor p)
       (all_markets @ polymarket_active_page post convert p)
       (requested @ [cursor_param c])"
proof -
  let ?ms = "all_markets @ polymarket_active_page post convert p"
  have ms: "(if filter is_active (page_data p) \<noteq> []
             then all_markets @ convert_markets_with_batch_pricing post convert
                    (filter is_active (page_data p))
             else all_markets) = ?ms"
    by (simp add: polymarket_active_page_def)
  show ?thesis
  proof (cases limit)
    case None
    with assms(1,2) show ?thesis
      by (subst polymarket_markets_loop.simps)
        (simp add: polymarket_continues_def Let_def ms)
  next
    case (Some n)
    with assms(3) have "\<not> (n \<noteq> 0 \<and> int (length ?ms) \<ge> n)"
      by (simp add: limit_reached_def)
    with Some assms(1,2) show ?thesis
      by (subst polymarket_markets_loop.simps)
        (auto simp add: polymarket_continues_def Let_def ms)
  qed
qed

lemma polymarket_markets_fail:
  assumes "fetch (cursor_param c) = Inl e"
  shows "polymarket_markets_loop fetch post convert limit c all_markets requested =
     Some (Inl e, requested @ [cursor_param c])"
  using assms
  by (subst polymarket_markets_loop.simps) simp

lemma polymarket_markets_run:
  assumes "polymarket_pages_below_limit fetch post convert limit c all_markets ps"
  shows "polymarket_markets_loop fetch post convert limit c all_markets requested =
     polymarket_markets_loop fetch post convert limit (next_cursor_after c ps)
       (all_markets @ concat (map (polymarket_active_page post convert) ps))
       (requested @ requested_cursors c ps)"
  using assms
proof (induction ps arbitrary: c all_markets requested)
  case Nil
  show ?case by simp
next
  case (Cons p ps)
  let ?ms = "all_markets @ polymarket_active_page post convert p"
  from Cons.prems have f: "fetch (cursor_param c) = Inr p" and k: "polymarket_continues p"
    and l: "\<not> limit_reached limit ?ms"
    and r: "polymarket_pages_below_limit fetch post convert limit (page_next_cursor p) ?ms ps"
    by simp_all
  show ?case
    by (simp add: polymarket_markets_step [of fetch c p limit all_markets post convert, OF f k l]
        Cons.IH [OF r])
qed

lemma kalshi_keyword_step:
  assumes "fetch (kalshi_request c) = Inr p" and "kalshi_continues p"
  shows "kalshi_keyword_loop fetch convert lower keyword c all_markets requested =
     kalshi_keyword_loop fetch convert lower keyword (page_cursor p)
       (all_markets @ kalshi_keyword_page convert lower keyword p)
       (requested @ [kalshi_request c])"
  using assms
  by (subst kalshi_keyword_loop.simps)
    (simp add: kalshi_continues_def kalshi_keyword_page_def Let_def)

lemma kalshi_keyword_end:
  assumes "fetch (kalshi_request c) = Inr p" and "\<not> kalshi_continues p"
  shows "kalshi_keyword_loop fetch convert lower keyword c all_markets requested =
     Some (Inr (all_markets @ kalshi_keyword_page convert lower keyword p),
           requested @ [kalshi_request c])"
  using assms
  by (subst kalshi_keyword_loop.simps)
    (auto simp add: kalshi_continues_def kalshi_keyword_page_def Let_def List.map_filter_simps)

lemma kalshi_keyword_fail:
  assumes "fetch (kalshi_request c) = Inl e"
  shows "kalshi_keyword_loop fetch convert lower keyword c all_markets requested =
     Some (Inl e, requested @ [kalshi_request c])"
  using assms
  by (subst kalshi_keyword_loop.simps) simp

lemma kalshi_keyword_run:
  assumes "kalshi_pages fetch c ps"
  shows "kalshi_keyword_loop fetch convert lower keyword c all_markets requested =
     kalshi_keyword_loop fetch convert lower keyword (kalshi_cursor_after c ps)
       (all_markets @ concat (map (kalshi_keyword_page convert lower keyword) ps))
       (requested @ kalshi_requests c ps)"
  using assms
proof (induction ps arbitrary: c all_markets requested)
  case Nil
  show ?case by simp
next
  case (Cons p ps)
  then have f: "fetch (kalshi_request c) = Inr p" and k: "kalshi_continues p"
    and r: "kalshi_pages fetch (page_cursor p) ps" by simp_all
  show ?case
    by (simp add: kalshi_keyword_step [of fetch c p, OF f k] Cons.IH [OF r])
qed

lemma kalshi_requests_append:
  "kalshi_requests c (ps @ [p]) = kalshi_requests c ps @ [kalshi_request (kalshi_cursor_after c ps)]"
  by (induction ps arbitrary: c) simp_all

lemma length_kalshi_requests: "length (kalshi_requests c ps) = length ps"
  by (induction ps arbitrary: c) simp_all

subsection \<open>Pagination\<close>

text \<open>
  Claim C7, as amended. A keyword listing requests the first page without a cursor and
  every further page with the cursor the page before it supplied, for as long as the
  pages continue: the listing ends with the first page that has no data, or no cursor,
  or (Polymarket) the end sentinel for a cursor, or (Kalshi) fewer than 200 records. It
  returns, in order, the records of all these pages that match the keyword and convert.
  So a run of \<open>n\<close> continuing pages followed by a page that does not continue makes
  exactly \<open>n + 1\<close> requests; in particular a source of three pages whose first two
  continue and whose third has no cursor is fetched three times.
\<close>

theorem keyword_listing_pagination:
  "(polymarket_pages fetch [] ps \<and> fetch (cursor_param (next_cursor_after [] ps)) = Inr final \<and>
    \<not> polymarket_continues final \<longrightarrow>
      polymarket_get_markets_by_keyword fetch post convert lower keyword =
        Some (Inr (concat (map (polymarket_keyword_page post convert lower keyword) (ps @ [final]))),
              requested_cursors [] (ps @ [final])) \<and>
      length (requested_cursors [] (ps @ [final])) = length ps + 1)
   \<and> (kalshi_pages kfetch None kps \<and> kfetch (kalshi_request (kalshi_cursor_after None kps)) = Inr kfinal \<and>
    \<not> kalshi_continues kfinal \<longrightarrow>
      kalshi_get_markets_by_keyword kfetch kconvert lower keyword =
        Some (Inr (concat (map (kalshi_keyword_page kconvert lower keyword) (kps @ [kfinal]))),
              kalshi_requests None (kps @ [kfinal])) \<and>
      length (kalshi_requests None (kps @ [kfinal])) = length kps + 1)"
proof (intro conjI impI)
  assume a: "polymarket_pages fetch [] ps \<and> fetch (cursor_param (next_cursor_after [] ps)) = Inr final \<and>
    \<not> polymarket_continues final"
  then have run: "polymarket_pages fetch [] ps"
    and f: "fetch (cursor_param (next_cursor_after [] ps)) = Inr final"
    and e: "\<not> polymarket_continues final" by simp_all
  have "polymarket_keyword_loop fetch post convert lower keyword [] [] [] =
      Some (Inr (concat (map (polymarket_keyword_page post convert lower keyword) ps)
                 @ polymarket_keyword_page post convert lower keyword final),
            requested_cursors [] ps @ [cursor_param (next_cursor_after [] ps)])"
    using polymarket_keyword_run [OF run, of post convert lower keyword "[]" "[]"]
      polymarket_keyword_end [of fetch "next_cursor_after [] ps" final, OF f e]
    by simp
  then show "polymarket_get_markets_by_keyword fetch post convert lower keyword =
        Some (Inr (concat (map (polymarket_keyword_page post convert lower keyword) (ps @ [final]))),
              requested_cursors [] (ps @ [final]))"
    by (simp add: polymarket_get_markets_by_keyword_def requested_cursors_append)
  show "length (requested_cursors [] (ps @ [final])) = length ps + 1"
    by (simp add: length_requested_cursors)
next
  assume a: "kalshi_pages kfetch None kps \<and> kfetch (kalshi_request (kalshi_cursor_after None kps)) = Inr kfinal \<and>
    \<not> kalshi_continues kfinal"
  then have run: "kalshi_pages kfetch None kps"
    and f: "kfetch (kalshi_request (kalshi_cursor_after None kps)) = Inr kfinal"
    and e: "\<not> kalshi_continues kfinal" by simp_all
  have "kalshi_keyword_loop kfetch kconvert lower keyword None [] [] =
      Some (Inr (concat (map (kalshi_keyword_page kconvert lower keyword) kps)
                 @ kalshi_keyword_page kconvert lower keyword kfinal),
            kalshi_requests None kps @ [kalshi_request (kalshi_cursor_after None kps)])"
    using kalshi_keyword_run [OF run, of kconvert lower keyword "[]" "[]"]
      kalshi_keyword_end [of kfetch "kalshi_cursor_after None kps" kfinal, OF f e]
    by simp
  then show "kalshi_get_markets_by_keyword kfetch kconvert lower keyword =
        Some (Inr (concat (map (kalshi_keyword_page kconvert lower keyword) (kps @ [kfinal]))),
              kalshi_requests None (kps @ [kfinal]))"
    by (simp add: kalshi_get_markets_by_keyword_def kalshi_requests_append)
  show "length (kalshi_requests None (kps @ [kfinal])) = length kps + 1"
    by (simp add: length_kalshi_requests)
qed

lemma map_filter_replicate:
  "List.map_filter f (replicate n x) = (case f x of None \<Rightarrow> [] | Some y \<Rightarrow> replicate n y)"
  by (induction n) (simp_all add: List.map_filter_simps split: option.splits)

lemma sample_polymarket_contributions:
  "polymarket_keyword_page quote_all sample_polymarket_convert ascii_lower (str_lit ''biden'')
     polymarket_page_1 = [(''c1'', [(''t1'', 50), (''t2'', 50)])]"
  "polymarket_keyword_page quote_all sample_polymarket_convert ascii_lower (str_lit ''biden'')
     polymarket_page_2 = [(''c3'', [(''t4'', 50)])]"
  "polymarket_keyword_page quote_all sample_polymarket_convert ascii_lower (str_lit ''biden'')
     polymarket_page_3 = [(''c4'', [(''t5'', 50), (''t6'', 50)])]"
  by code_simp+

lemma sample_polymarket_run:
  "polymarket_pages three_page_polymarket [] [polymarket_page_1, polymarket_page_2]"
  "polymarket_pages two_page_polymarket [] [polymarket_page_1, polymarket_page_2]"
  "three_page_polymarket (cursor_param (next_cursor_after [] [polymarket_page_1, polymarket_page_2]))
     = Inr polymarket_page_3"
  "two_page_polymarket (cursor_param (next_cursor_after [] [polymarket_page_1, polymarket_page_2]))
     = Inl ClientError"
  "\<not> polymarket_continues polymarket_page_3"
  by (simp_all add: three_page_polymarket_def two_page_polymarket_def polymarket_source_def
      cursor_param_def polymarket_continues_def polymarket_page_1_def polymarket_page_2_def
      polymarket_page_3_def end_cursor_def)

lemma sample_kalshi_matches:
  "kalshi_keyword_match ascii_lower (str_lit ''biden'') (sample_kalshi_raw ''K1'' ''Will Biden win?'')"
  "kalshi_keyword_match ascii_lower (str_lit ''biden'') (sample_kalshi_raw ''K2'' ''Biden approval above 40?'')"
  "\<not> kalshi_keyword_match ascii_lower (str_lit ''biden'') (sample_kalshi_raw ''K3'' ''Rain tomorrow?'')"
  "kalshi_keyword_match ascii_lower (str_lit ''biden'') (sample_kalshi_raw ''K4'' ''Will BIDEN resign?'')"
  by code_simp+

lemma sample_kalshi_convert_raw:
  "sample_kalshi_convert (sample_kalshi_raw ticker t) = Some ticker"
  by (simp add: sample_kalshi_convert_def sample_kalshi_raw_def)

lemma sample_kalshi_contributions:
  "kalshi_keyword_page sample_kalshi_convert ascii_lower (str_lit ''biden'') kalshi_page_1
     = replicate 200 ''K1''"
  "kalshi_keyword_page sample_kalshi_convert ascii_lower (str_lit ''biden'') kalshi_page_2 = [''K2'']"
  "kalshi_keyword_page sample_kalshi_convert ascii_lower (str_lit ''biden'') kalshi_page_3 = [''K4'']"
  "kalshi_keyword_page sample_kalshi_convert ascii_lower (str_lit ''biden'') kalshi_short_page = [''K1'']"
  by (simp_all add: kalshi_keyword_page_def kalshi_page_1_def kalshi_page_2_def kalshi_page_3_def
      kalshi_short_page_def sample_kalshi_matches map_filter_replicate List.map_filter_simps
      sample_kalshi_convert_raw)

lemma sample_kalshi_run:
  "kalshi_pages three_page_kalshi None [kalshi_page_1, kalshi_page_2]"
  "three_page_kalshi (kalshi_request (kalshi_cursor_after None [kalshi_page_1, kalshi_page_2]))
     = Inr kalshi_page_3"
  "\<not> kalshi_continues kalshi_page_3"
  "kalshi_pages short_page_kalshi None []"
  "short_page_kalshi (kalshi_request (kalshi_cursor_after None [])) = Inr kalshi_short_page"
  "\<not> kalshi_continues kalshi_short_page"
  by (simp_all add: three_page_kalshi_def short_page_kalshi_def kalshi_source_def kalshi_request_def
      cursor_truthy_def kalshi_continues_def kalshi_page_1_def kalshi_page_2_def kalshi_page_3_def
      kalshi_short_page_def)

lemma sample_cursors:
  "page_next_cursor polymarket_page_1 = ''MTA=''"
  "page_next_cursor polymarket_page_2 = ''MjA=''"
  "page_cursor kalshi_page_1 = Some ''a''"
  "page_cursor kalshi_page_2 = Some ''b''"
  by (simp_all add: polymarket_page_1_def polymarket_page_2_def kalshi_page_1_def kalshi_page_2_def)

theorem keyword_listing_pagination_witness:
  "polymarket_get_markets_by_keyword three_page_polymarket quote_all sample_polymarket_convert
     ascii_lower (str_lit ''biden'') =
     Some (Inr [(''c1'', [(''t1'', 50), (''t2'', 50)]), (''c3'', [(''t4'', 50)]),
                (''c4'', [(''t5'', 50), (''t6'', 50)])],
           [None, Some ''MTA='', Some ''MjA='']) \<and>
   kalshi_get_markets_by_keyword three_page_kalshi sample_kalshi_convert ascii_lower (str_lit ''biden'') =
     Some (Inr (replicate 200 ''K1'' @ [''K2'', ''K4'']),
           [kalshi_request None, kalshi_request (Some ''a''), kalshi_request (Some ''b'')])"
proof -
  note inst = keyword_listing_pagination
    [where fetch = three_page_polymarket and ps = "[polymarket_page_1, polymarket_page_2]"
       and final = polymarket_page_3 and post = quote_all and convert = sample_polymarket_convert
       and lower = ascii_lower and keyword = "str_lit ''biden''"
       and kfetch = three_page_kalshi and kps = "[kalshi_page_1, kalshi_page_2]"
       and kfinal = kalshi_page_3 and kconvert = sample_kalshi_convert]
  have a: "polymarket_get_markets_by_keyword three_page_polymarket quote_all sample_polymarket_convert
     ascii_lower (str_lit ''biden'') =
     Some (Inr [(''c1'', [(''t1'', 50), (''t2'', 50)]), (''c3'', [(''t4'', 50)]),
                (''c4'', [(''t5'', 50), (''t6'', 50)])],
           [None, Some ''MTA='', Some ''MjA=''])"
    using inst [THEN conjunct1] sample_polymarket_run(1,3,5)
    by (simp add: sample_polymarket_contributions cursor_param_def sample_cursors)
  have b: "kalshi_get_markets_by_keyword three_page_kalshi sample_kalshi_convert ascii_lower (str_lit ''biden'') =
     Some (Inr (replicate 200 ''K1'' @ [''K2'', ''K4'']),
           [kalshi_request None, kalshi_request (Some ''a''), kalshi_request (Some ''b'')])"
    using inst [THEN conjunct2] sample_kalshi_run(1,2,3)
    by (simp add: sample_kalshi_contributions sample_cursors)
  from a b show ?thesis by blast
qed

text \<open>
  The claim as stated fails for Kalshi: a first page of one record ends the listing
  although it carries the cursor \<open>a\<close>, under which the source holds another matching
  record. One request is made, and the second page is never asked for.
\<close>

theorem keyword_listing_counterexample:
  "kalshi_get_markets_by_keyword short_page_kalshi sample_kalshi_convert ascii_lower (str_lit ''biden'') =
     Some (Inr [''K1''], [kalshi_request None]) \<and>
   page_cursor kalshi_short_page = Some ''a'' \<and>
   short_page_kalshi (kalshi_request (Some ''a'')) = Inr kalshi_page_3 \<and>
   kalshi_keyword_page sample_kalshi_convert ascii_lower (str_lit ''biden'') kalshi_page_3 = [''K4'']"
proof -
  have "kalshi_keyword_loop short_page_kalshi sample_kalshi_convert ascii_lower (str_lit ''biden'') None [] [] =
      Some (Inr ([] @ kalshi_keyword_page sample_kalshi_convert ascii_lower (str_lit ''biden'') kalshi_short_page),
            [] @ [kalshi_request None])"
    using sample_kalshi_run(5,6) by (intro kalshi_keyword_end) simp_all
  then have "kalshi_get_markets_by_keyword short_page_kalshi sample_kalshi_convert ascii_lower (str_lit ''biden'') =
     Some (Inr [''K1''], [kalshi_request None])"
    by (simp add: kalshi_get_markets_by_keyword_def sample_kalshi_contributions)
  moreover have "short_page_kalshi (kalshi_request (Some ''a'')) = Inr kalshi_page_3"
    by (simp add: short_page_kalshi_def kalshi_source_def kalshi_request_def cursor_truthy_def)
  ultimately show ?thesis
    by (simp add: sample_kalshi_contributions kalshi_short_page_def)
qed

subsection \<open>Failures\<close>

text \<open>
  Claim C2, as amended. The listing and detail functions of the Polymarket client and
  the detail function of the Kalshi client never raise: when a fetch fails, after any
  run of pages, \<^verbatim>\<open>get_markets\<close> and \<^verbatim>\<open>get_markets_by_keyword\<close> of Polymarket return the
  empty list (the markets of the earlier pages are dropped), and \<^verbatim>\<open>get_market_details\<close>
  of either client returns \<^verbatim>\<open>None\<close>. \<^verbatim>\<open>get_markets\<close> and \<^verbatim>\<open>get_markets_by_keyword\<close>
  of Kalshi raise instead: the failure reaches the caller as an \<^verbatim>\<open>APIError\<close>.
\<close>

theorem listing_failure:
  "(polymarket_pages fetch [] ps \<and> fetch (cursor_param (next_cursor_after [] ps)) = Inl e \<longrightarrow>
      polymarket_get_markets_by_keyword fetch post convert lower keyword =
        Some (Inr [], requested_cursors [] ps @ [cursor_param (next_cursor_after [] ps)]))
   \<and> (polymarket_pages_below_limit fetch post convert limit [] [] ps \<and>
       fetch (cursor_param (next_cursor_after [] ps)) = Inl e \<longrightarrow>
      polymarket_get_markets fetch post convert limit =
        Some (Inr [], requested_cursors [] ps @ [cursor_param (next_cursor_after [] ps)]))
   \<and> (fetch_market market = Inl e \<longrightarrow>
      polymarket_get_market_details fetch_market post convert market = Inr None)
   \<and> (\<forall>e' r. polymarket_get_markets_by_keyword fetch post convert lower keyword \<noteq> Some (Inl e', r)
            \<and> polymarket_get_markets fetch post convert limit \<noteq> Some (Inl e', r)
            \<and> polymarket_get_market_details fetch_market post convert market \<noteq> Inl e'
            \<and> kalshi_get_market_details kfetch_market kconvert market \<noteq> Inl e')
   \<and> (kfetch_market market = Inl e \<longrightarrow>
      kalshi_get_market_details kfetch_market kconvert market = Inr None)
   \<and> (kfetch (kalshi_markets_request limit) = Inl e \<longrightarrow>
      kalshi_get_markets kfetch kconvert limit = Inl (APIError e))
   \<and> (kalshi_pages kfetch None kps \<and> kfetch (kalshi_request (kalshi_cursor_after None kps)) = Inl e \<longrightarrow>
      kalshi_get_markets_by_keyword kfetch kconvert lower keyword =
        Some (Inl (APIError e), kalshi_requests None kps @ [kalshi_request (kalshi_cursor_after None kps)]))"
proof (intro conjI impI allI)
  assume "polymarket_pages fetch [] ps \<and> fetch (cursor_param (next_cursor_after [] ps)) = Inl e"
  then have run: "polymarket_pages fetch [] ps"
    and f: "fetch (cursor_param (next_cursor_after [] ps)) = Inl e" by simp_all
  show "polymarket_get_markets_by_keyword fetch post convert lower keyword =
        Some (Inr [], requested_cursors [] ps @ [cursor_param (next_cursor_after [] ps)])"
  proof -
    have "polymarket_keyword_loop fetch post convert lower keyword (next_cursor_after [] ps) ms req =
        Some (Inl e, req @ [cursor_param (next_cursor_after [] ps)])" for ms req
      using f by (rule polymarket_keyword_fail)
    with polymarket_keyword_run [OF run, of post convert lower keyword "[]" "[]"]
    show ?thesis by (simp add: polymarket_get_markets_by_keyword_def)
  qed
next
  assume "polymarket_pages_below_limit fetch post convert limit [] [] ps \<and>
       fetch (cursor_param (next_cursor_after [] ps)) = Inl e"
  then have run: "polymarket_pages_below_limit fetch post convert limit [] [] ps"
    and f: "fetch (cursor_param (next_cursor_after [] ps)) = Inl e" by simp_all
  show "polymarket_get_markets fetch post convert limit =
        Some (Inr [], requested_cursors [] ps @ [cursor_param (next_cursor_after [] ps)])"
  proof -
    have "polymarket_markets_loop fetch post convert limit (next_cursor_after [] ps) ms req =
        Some (Inl e, req @ [cursor_param (next_cursor_after [] ps)])" for ms req
      using f by (rule polymarket_markets_fail)
    with polymarket_markets_run [OF run, of "[]"]
    show ?thesis by (simp add: polymarket_get_markets_def)
  qed
next
  assume "fetch_market market = Inl e"
  then show "polymarket_get_market_details fetch_market post convert market = Inr None"
    by (simp add: polymarket_get_market_details_def)
next
  fix e' r
  show "polymarket_get_markets_by_keyword fetch post convert lower keyword \<noteq> Some (Inl e', r)"
    by (simp add: polymarket_get_markets_by_keyword_def split: option.splits prod.splits sum.splits)
  show "polymarket_get_markets fetch post convert limit \<noteq> Some (Inl e', r)"
    by (simp add: polymarket_get_markets_def split: option.splits prod.splits sum.splits)
  show "polymarket_get_market_details fetch_market post convert market \<noteq> Inl e'"
    by (simp add: polymarket_get_market_details_def Let_def split: option.splits sum.splits)
  show "kalshi_get_market_details kfetch_market kconvert market \<noteq> Inl e'"
    by (simp add: kalshi_get_market_details_def split: option.splits sum.splits)
next
  assume "kfetch_market market = Inl e"
  then show "kalshi_get_market_details kfetch_market kconvert market = Inr None"
    by (simp add: kalshi_get_market_details_def)
next
  assume "kfetch (kalshi_markets_request limit) = Inl e"
  then show "kalshi_get_markets kfetch kconvert limit = Inl (APIError e)"
    by (simp add: kalshi_get_markets_def)
next
  assume "kalshi_pages kfetch None kps \<and> kfetch (kalshi_request (kalshi_cursor_after None kps)) = Inl e"
  then have run: "kalshi_pages kfetch None kps"
    and f: "kfetch (kalshi_request (kalshi_cursor_after None kps)) = Inl e" by simp_all
  show "kalshi_get_markets_by_keyword kfetch kconvert lower keyword =
        Some (Inl (APIError e), kalshi_requests None kps @ [kalshi_request (kalshi_cursor_after None kps)])"
  proof -
    have "kalshi_keyword_loop kfetch kconvert lower keyword (kalshi_cursor_after None kps) ms req =
        Some (Inl e, req @ [kalshi_request (kalshi_cursor_after None kps)])" for ms req
      using f by (rule kalshi_keyword_fail)
    with kalshi_keyword_run [OF run, of kconvert lower keyword "[]" "[]"]
    show ?thesis by (simp add: kalshi_get_markets_by_keyword_def)
  qed
qed

lemma two_page_below_limit:
  "polymarket_pages_below_limit two_page_polymarket quote_all sample_polymarket_convert None [] []
     [polymarket_page_1, polymarket_page_2]"
  using sample_polymarket_run(2) by (simp add: limit_reached_def)

theorem listing_failure_witness:
  "polymarket_get_markets_by_keyword two_page_polymarket quote_all sample_polymarket_convert
     ascii_lower (str_lit ''biden'') = Some (Inr [], [None, Some ''MTA='', Some ''MjA='']) \<and>
   polymarket_get_markets two_page_polymarket quote_all sample_polymarket_convert None =
     Some (Inr [], [None, Some ''MTA='', Some ''MjA='']) \<and>
   polymarket_get_market_details (\<lambda>m. Inl ClientError) quote_all sample_polymarket_convert ''c1'' =
     Inr None \<and>
   kalshi_get_market_details (\<lambda>m. Inl ClientError) sample_kalshi_convert ''c1'' = Inr None \<and>
   kalshi_get_markets (kalshi_source []) sample_kalshi_convert None = Inl (APIError ClientError) \<and>
   kalshi_get_markets_by_keyword (kalshi_source []) sample_kalshi_convert ascii_lower
     (str_lit ''biden'') = Some (Inl (APIError ClientError), [kalshi_request None])"
proof -
  note inst = listing_failure
    [where fetch = two_page_polymarket and ps = "[polymarket_page_1, polymarket_page_2]"
       and e = ClientError and post = quote_all and convert = sample_polymarket_convert
       and lower = ascii_lower and keyword = "str_lit ''biden''" and limit = None
       and fetch_market = "\<lambda>m. Inl ClientError" and market = "''c1''"
       and kfetch_market = "\<lambda>m. Inl ClientError" and kconvert = sample_kalshi_convert
       and kfetch = "kalshi_source []" and kps = "[]"]
  have k: "kalshi_source [] p = Inl ClientError" for p
    by (simp add: kalshi_source_def)
  have a: "polymarket_get_markets_by_keyword two_page_polymarket quote_all sample_polymarket_convert
     ascii_lower (str_lit ''biden'') = Some (Inr [], [None, Some ''MTA='', Some ''MjA=''])"
    using inst [THEN conjunct1] sample_polymarket_run(2,4)
    by (simp add: cursor_param_def sample_cursors)
  have b: "polymarket_get_markets two_page_polymarket quote_all sample_polymarket_convert None =
     Some (Inr [], [None, Some ''MTA='', Some ''MjA=''])"
    using inst [THEN conjunct2, THEN conjunct1] two_page_below_limit sample_polymarket_run(4)
    by (simp add: cursor_param_def sample_cursors)
  have c: "polymarket_get_market_details (\<lambda>m. Inl ClientError) quote_all sample_polymarket_convert ''c1'' =
     Inr None"
    using inst [THEN conjunct2, THEN conjunct2, THEN conjunct1] by simp
  have d: "kalshi_get_market_details (\<lambda>m. Inl ClientError) sample_kalshi_convert ''c1'' = Inr None"
    using inst [THEN conjunct2, THEN conjunct2, THEN conjunct2, THEN conjunct2, THEN conjunct1]
    by simp
  have f: "kalshi_get_markets (kalshi_source []) sample_kalshi_convert None = Inl (APIError ClientError)"
    using inst [THEN conjunct2, THEN conjunct2, THEN conjunct2, THEN conjunct2, THEN conjunct2,
        THEN conjunct1] k by simp
  have g: "kalshi_get_markets_by_keyword (kalshi_source []) sample_kalshi_convert ascii_lower
     (str_lit ''biden'') = Some (Inl (APIError ClientError), [kalshi_request None])"
    using inst [THEN conjunct2, THEN conjunct2, THEN conjunct2, THEN conjunct2, THEN conjunct2,
        THEN conjunct2] k by simp
  from a b c d f g show ?thesis by blast
qed

text \<open>
  The claim as stated fails for the two listing functions of the Kalshi client, whose
  \<^verbatim>\<open>except\<close> branch raises \<^verbatim>\<open>APIError\<close>: at the first request, or at a later one; the
  markets of the page before are lost with it.
\<close>

theorem listing_failure_counterexample:
  "kalshi_get_markets (kalshi_source []) sample_kalshi_convert (Some 50) =
     Inl (APIError ClientError) \<and>
   kalshi_get_markets_by_keyword (kalshi_source [(kalshi_request None, kalshi_page_1)])
     sample_kalshi_convert ascii_lower (str_lit ''biden'') =
     Some (Inl (APIError ClientError), [kalshi_request None, kalshi_request (Some ''a'')])"
proof -
  let ?src = "kalshi_source [(kalshi_request None, kalshi_page_1)]"
  have one: "kalshi_get_markets (kalshi_source []) sample_kalshi_convert (Some 50) =
     Inl (APIError ClientError)"
    by (simp add: kalshi_get_markets_def kalshi_source_def)
  have p: "kalshi_pages ?src None [kalshi_page_1]"
    by (simp add: kalshi_source_def kalshi_continues_def kalshi_page_1_def cursor_truthy_def)
  have f: "?src (kalshi_request (kalshi_cursor_after None [kalshi_page_1])) = Inl ClientError"
    by (simp add: kalshi_source_def kalshi_request_def cursor_truthy_def sample_cursors)
  have "kalshi_keyword_loop ?src sample_kalshi_convert ascii_lower (str_lit ''biden'')
          (kalshi_cursor_after None [kalshi_page_1]) ms req =
        Some (Inl ClientError, req @ [kalshi_request (kalshi_cursor_after None [kalshi_page_1])])"
    for ms req
    using f by (rule kalshi_keyword_fail)
  with kalshi_keyword_run [OF p, of sample_kalshi_convert ascii_lower "str_lit ''biden''" "[]" "[]"]
  have "kalshi_get_markets_by_keyword ?src sample_kalshi_convert ascii_lower (str_lit ''biden'') =
     Some (Inl (APIError ClientError), [kalshi_request None, kalshi_request (Some ''a'')])"
    by (simp add: kalshi_get_markets_by_keyword_def sample_cursors)
  with one show ?thesis by blast
qed

end
